theory Spec2Isabelle
  imports Main "HOL-Library.Sublist"
begin

section \<open>Text\<close>

text \<open>
  A Python \<open>str\<close> is a sequence of Unicode code points, so text is a list of code
  points here, not a list of bytes. \<open>lit\<close> turns an ASCII literal of the source into
  such a text.
\<close>

type_synonym py_str = "nat list"

definition lit :: "string \<Rightarrow> py_str" where
  "lit s = map of_char s"

text \<open>\<open>str(n)\<close> for a non-negative integer, as the f-strings of the source render it.\<close>

fun str_nat :: "nat \<Rightarrow> py_str" where
  "str_nat n = (if n < 10 then [48 + n] else str_nat (n div 10) @ [48 + n mod 10])"

declare str_nat.simps [simp del]

text \<open>
  \<open>str.isspace\<close> on one code point (CPython's \<open>_PyUnicode_IsWhitespace\<close>), and
  \<open>str.strip()\<close> without argument, which removes leading and trailing whitespace.
\<close>

definition py_isspace :: "nat \<Rightarrow> bool" where
  "py_isspace c \<longleftrightarrow>
     (9 \<le> c \<and> c \<le> 13) \<or> (28 \<le> c \<and> c \<le> 32) \<or> c = 133 \<or> c = 160 \<or> c = 5760 \<or>
     (8192 \<le> c \<and> c \<le> 8202) \<or> c = 8232 \<or> c = 8233 \<or> c = 8239 \<or> c = 8287 \<or> c = 12288"

definition strip :: "py_str \<Rightarrow> py_str" where
  "strip s = rev (dropWhile py_isspace (rev (dropWhile py_isspace s)))"

text \<open>\<open>sep.join(xs)\<close>.\<close>

fun str_join :: "py_str \<Rightarrow> py_str list \<Rightarrow> py_str" where
  "str_join sep [] = []"
| "str_join sep [x] = x"
| "str_join sep (x # y # ys) = x @ sep @ str_join sep (y # ys)"

text \<open>\<open>needle in haystack\<close> on strings; the haystack comes first.\<close>

fun contains_str :: "py_str \<Rightarrow> py_str \<Rightarrow> bool" where
  "contains_str [] needle = (needle = [])"
| "contains_str (c # cs) needle = (prefix needle (c # cs) \<or> contains_str cs needle)"

text \<open>The number of positions of the haystack at which the needle starts.\<close>

fun count_str :: "py_str \<Rightarrow> py_str \<Rightarrow> nat" where
  "count_str [] needle = (if needle = [] then 1 else 0)"
| "count_str (c # cs) needle = (if prefix needle (c # cs) then 1 else 0) + count_str cs needle"

section \<open>The process's streams and the remote services\<close>

text \<open>
  What the controlling thread does to the ticker: it writes the global
  \<open>stop_ticker_flag\<close>, starts the thread and joins it.
\<close>

datatype thread_event = SetStopFlag bool | ThreadStart | ThreadJoin

text \<open>
  The state a run changes: what was written to standard output and to standard error,
  the chat-completion requests issued so far (prompt and \<open>is_json\<close>), in order, the
  global \<open>stop_ticker_flag\<close>, and the thread events so far, in order.
\<close>

record world =
  stdout :: py_str
  stderr :: py_str
  requests :: "(py_str \<times> bool) list"
  stop_ticker_flag :: bool
  thread_log :: "thread_event list"

definition print :: "py_str \<Rightarrow> world \<Rightarrow> world" where
  "print s w = w\<lparr>stdout := stdout w @ s @ lit ''\<newline>''\<rparr>"

definition stderr_write :: "py_str \<Rightarrow> world \<Rightarrow> world" where
  "stderr_write s w = w\<lparr>stderr := stderr w @ s\<rparr>"

text \<open>
  The exceptions the two \<open>try\<close> blocks can see: \<open>openai.APIError\<close>, and any other
  subclass of \<open>Exception\<close>. Each carries the text \<open>str(e)\<close> that the handlers print.
\<close>

datatype py_exception = APIError py_str | OtherException py_str

text \<open>
  The OpenAI client is outside the repository and enters as a parameter.
  \<open>transcriptions_create filename\<close> is the outcome of the \<open>with open(filename, "rb")\<close>
  block around \<open>client.audio.transcriptions.create\<close>: the transcript text or the exception
  raised. \<open>chat_completions_create k prompt is_json\<close> is the outcome of the \<open>k\<close>-th call
  (counted from 0) of \<open>client.chat.completions.create\<close> in the run: an exception, or a
  response given by the \<open>message.content\<close> of each of its \<open>choices\<close> (\<open>None\<close> when the
  content is absent). The call index lets equal prompts receive different answers.
\<close>

record client =
  transcriptions_create :: "py_str \<Rightarrow> py_exception + py_str"
  chat_completions_create :: "nat \<Rightarrow> py_str \<Rightarrow> bool \<Rightarrow> py_exception + py_str option list"

text \<open>
  The tokenizer (\<open>tiktoken\<close>, encoding \<open>cl100k_base\<close>) is outside the repository as
  well and enters as a parameter; a token is a natural number. \<open>encode tk text\<close> is the
  outcome of \<open>tiktoken.get_encoding(...)\<close> followed by \<open>tokenizer.encode(text)\<close>: the
  tokens, or the exception raised (tiktoken raises ValueError on a text that spells a
  special token such as \<open><|endoftext|>\<close>).
\<close>

record tokenizer =
  encode :: "py_str \<Rightarrow> py_exception + nat list"
  decode :: "nat list \<Rightarrow> py_str"

definition MAX_TOKENS_PER_CHUNK :: nat where
  "MAX_TOKENS_PER_CHUNK = 8000"

section \<open>The LLM client adapter\<close>

text \<open>
  The expression \<open>response.choices[0].message.content.strip()\<close> inside the \<open>try\<close> block
  of \<open>get_llm_response\<close>: indexing an empty list of choices raises IndexError, and
  \<open>None.strip()\<close> raises AttributeError (39 is the apostrophe).
\<close>

definition completion_text :: "py_exception + py_str option list \<Rightarrow> py_exception + py_str" where
  "completion_text r =
     (case r of
        Inl e \<Rightarrow> Inl e
      | Inr [] \<Rightarrow> Inl (OtherException (lit ''list index out of range''))
      | Inr (None # _) \<Rightarrow>
          Inl (OtherException
                 (39 # lit ''NoneType'' @ 39 # lit '' object has no attribute '' @ 39 # lit ''strip'' @ [39]))
      | Inr (Some content # _) \<Rightarrow> Inr (strip content))"

definition get_llm_response :: "client \<Rightarrow> py_str \<Rightarrow> bool \<Rightarrow> world \<Rightarrow> py_str \<times> world" where
  "get_llm_response cl prompt is_json w =
     (let w1 = w\<lparr>requests := requests w @ [(prompt, is_json)]\<rparr> in
      case completion_text (chat_completions_create cl (length (requests w)) prompt is_json) of
        Inr text \<Rightarrow> (text, w1)
      | Inl (APIError m) \<Rightarrow>
          (if is_json then lit ''{}'' else [],
           stderr_write (lit ''OpenAI API Error during summarization: '' @ m @ lit ''\<newline>'') w1)
      | Inl (OtherException m) \<Rightarrow>
          (if is_json then lit ''{}'' else [],
           stderr_write
             (lit ''An unexpected error occurred during summarization: '' @ m @ lit ''\<newline>'') w1))"

text \<open>\<open>transcribe_audio_with_api\<close>; the sentinel \<open>None\<close> of the source is \<open>None\<close> here.\<close>

definition transcribe_audio_with_api :: "client \<Rightarrow> py_str \<Rightarrow> world \<Rightarrow> py_str option \<times> world" where
  "transcribe_audio_with_api cl filename w =
     (let w1 = print (lit ''Uploading audio for transcription via API... This may take a moment.'') w in
      case transcriptions_create cl filename of
        Inr transcript \<Rightarrow> (Some transcript, print (lit ''Transcription successful.'') w1)
      | Inl (APIError m) \<Rightarrow>
          (None, stderr_write (lit ''OpenAI API Error during transcription: '' @ m @ lit ''\<newline>'') w1)
      | Inl (OtherException m) \<Rightarrow>
          (None,
           stderr_write
             (lit ''An unexpected error occurred during transcription: '' @ m @ lit ''\<newline>'') w1))"

section \<open>The map-reduce summarizer\<close>

text \<open>
  The \<open>while tokens:\<close> loop of \<open>summarize_transcript\<close>; \<open>chunks\<close> is the list built so
  far. The loop ends because the budget is positive.
\<close>

function chunk_loop :: "tokenizer \<Rightarrow> nat list \<Rightarrow> py_str list \<Rightarrow> py_str list" where
  "chunk_loop tk tokens chunks =
     (if tokens = [] then chunks
      else chunk_loop tk (drop MAX_TOKENS_PER_CHUNK tokens)
             (chunks @ [decode tk (take MAX_TOKENS_PER_CHUNK tokens)]))"
  by pat_completeness auto
termination
  by (relation "measure (\<lambda>(tk, tokens, chunks). length tokens)")
    (auto simp: MAX_TOKENS_PER_CHUNK_def)

declare chunk_loop.simps [simp del]

text \<open>The values \<open>chunk_tokens\<close> takes in the successive iterations of that loop.\<close>

function token_slices :: "nat list \<Rightarrow> nat list list" where
  "token_slices tokens =
     (if tokens = [] then []
      else take MAX_TOKENS_PER_CHUNK tokens # token_slices (drop MAX_TOKENS_PER_CHUNK tokens))"
  by pat_completeness auto
termination
  by (relation "measure length") (auto simp: MAX_TOKENS_PER_CHUNK_def)

declare token_slices.simps [simp del]

definition map_prompt :: "py_str \<Rightarrow> py_str" where
  \<open>map_prompt chunk =
     lit ''\<newline>        You are part of a summarization pipeline. Your task is to extract and summarize the key information from the following segment of a meeting transcript.\<newline>        Focus on concrete facts, decisions made, and any tasks assigned to individuals. Be concise and clear.\<newline>\<newline>        Transcript Segment:\<newline>        ---\<newline>        ''
     @ chunk @ lit ''\<newline>        ---\<newline>        ''\<close>

definition reduce_prompt :: "py_str \<Rightarrow> py_str" where
  \<open>reduce_prompt combined_summaries =
     lit ''\<newline>    You are an expert executive assistant. Your goal is to create a clear and actionable summary from a collection of meeting notes.\<newline>    Analyze the provided notes and generate a final report in a valid JSON object format.\<newline>\<newline>    The JSON object must have exactly these three keys:\<newline>    1. "summary": A brief, one-paragraph overview of the meeting's main topics and outcomes.\<newline>    2. "key_decisions": A list of strings, where each string is a significant decision that was finalized.\<newline>    3. "action_items": A list of objects, where each object has three string keys: "task", "owner" (use "TBD" if unassigned), and "deadline" (use "Not specified" if none).\<newline>\<newline>    Meeting Notes to Synthesize:\<newline>    ---\<newline>    ''
     @ combined_summaries
     @ lit ''\<newline>    ---\<newline>    Now, generate the final JSON report.\<newline>    ''\<close>

text \<open>
  The \<open>for i, chunk in enumerate(chunks)\<close> loop: \<open>n\<close> is \<open>len(chunks)\<close>, \<open>i\<close> the index
  of the next chunk, and \<open>chunk_summaries\<close> the list built so far.
\<close>

fun map_loop :: "client \<Rightarrow> nat \<Rightarrow> nat \<Rightarrow> py_str list \<Rightarrow> py_str list \<Rightarrow> world \<Rightarrow> py_str list \<times> world" where
  "map_loop cl n i [] chunk_summaries w = (chunk_summaries, w)"
| "map_loop cl n i (chunk # rest) chunk_summaries w =
     (let w1 = print (lit ''  - Processing chunk '' @ str_nat (i + 1) @ lit ''/'' @ str_nat n @ lit ''...'') w;
          (summary, w2) = get_llm_response cl (map_prompt chunk) False w1
      in map_loop cl n (i + 1) rest
           (if summary \<noteq> [] then chunk_summaries @ [summary] else chunk_summaries) w2)"

text \<open>
  \<open>summarize_transcript\<close>. Lines 102 and 103 are outside any \<open>try\<close>: an exception of the
  tokenizer leaves the function, after the first progress line was printed.
\<close>

definition summarize_transcript ::
  "tokenizer \<Rightarrow> client \<Rightarrow> py_str \<Rightarrow> world \<Rightarrow> (py_exception + py_str) \<times> world" where
  "summarize_transcript tk cl transcript w =
     (let w1 = print (lit ''Starting summarization process...'') w in
      case encode tk transcript of
        Inl e \<Rightarrow> (Inl e, w1)
      | Inr tokens \<Rightarrow>
          (let w2 = print (lit ''Splitting transcript into chunks...'') w1;
               chunks = chunk_loop tk tokens [];
               w3 = print (lit ''Summarizing '' @ str_nat (length chunks) @ lit '' chunk(s) of text...'') w2;
               (chunk_summaries, w4) = map_loop cl (length chunks) 0 chunks [] w3
           in if chunk_summaries = [] then
                (Inr (lit ''{}''),
                 stderr_write (lit ''Could not generate summaries for any transcript chunks.\<newline>'') w4)
              else
                let w5 = print (lit ''Generating final consolidated summary...'') w4;
                    combined_summaries = str_join (lit ''\<newline>\<newline>---\<newline>\<newline>'') chunk_summaries;
                    (final_summary_json, w6) =
                      get_llm_response cl (reduce_prompt combined_summaries) True w5
                in (Inr final_summary_json, print (lit ''Summarization complete.'') w6)))"

section \<open>The capture controller\<close>

text \<open>
  \<open>display_ticker\<close>, seen from inside the thread. Each pass of the loop reads the flag and
  the clock; the argument lists what the successive passes read (the flag, and the whole
  seconds elapsed). The result is what the thread wrote and whether it has left the loop:
  it leaves at the first pass that reads the flag as set, and is still running when the
  readings so far all found it unset.
\<close>

definition two_digits :: "nat \<Rightarrow> py_str" where
  "two_digits n = (if n < 10 then 48 # str_nat n else str_nat n)"

fun display_ticker :: "(bool \<times> nat) list \<Rightarrow> py_str \<times> bool" where
  "display_ticker [] = ([], False)"
| "display_ticker ((flag, elapsed) # later) =
     (if flag then ([], True)
      else let (out, finished) = display_ticker later
           in (13 # lit ''Recording: '' @ two_digits (elapsed div 60) @ lit '':''
                 @ two_digits (elapsed mod 60) @ out, finished))"

text \<open>
  What the body of the \<open>try\<close> block of \<open>record_audio\<close> can do: run to its end, raise
  \<open>ffmpeg.Error\<close> (with the outcome of \<open>e.stderr.decode('utf8')\<close>, which can raise
  itself), or raise any other subclass of \<open>Exception\<close> (with \<open>str(e)\<close>). The ffmpeg
  binding is outside the repository and enters as a parameter, given the input device,
  the input format and the output file.
\<close>

datatype capture_outcome =
  Completed | FfmpegError "py_exception + py_str" | OtherError py_str

text \<open>The \<open>finally\<close> clause of \<open>record_audio\<close>.\<close>

definition stop_ticker :: "world \<Rightarrow> world" where
  "stop_ticker w =
     print (lit ''\<newline>Recording process finished.'')
       (w\<lparr>stop_ticker_flag := True, thread_log := thread_log w @ [SetStopFlag True, ThreadJoin]\<rparr>)"

text \<open>
  \<open>record_audio\<close>. The result is \<open>Inr ()\<close> when the function returns and \<open>Inl e\<close> when
  an exception leaves it, which happens only when the handler of \<open>ffmpeg.Error\<close> raises;
  the \<open>finally\<close> clause has run by then. What the ticker thread writes in between is
  not part of this state.
\<close>

definition record_audio ::
  "(py_str \<Rightarrow> py_str \<Rightarrow> py_str \<Rightarrow> capture_outcome) \<Rightarrow> py_str \<Rightarrow> py_str \<Rightarrow> world
     \<Rightarrow> (py_exception + unit) \<times> world" where
  "record_audio ffmpeg_run platform output_filename w =
     (let w1 = w\<lparr>stop_ticker_flag := False,
                 thread_log := thread_log w @ [SetStopFlag False, ThreadStart]\<rparr>;
          w2 = print (lit ''Starting recording... Press '' @ 39 # lit ''Stop Recording'' @ 39
                        # lit '' in the GUI to finish.'') w1;
          (input_format, input_device) =
            (if platform = lit ''darwin'' then (lit ''avfoundation'', lit '':0'')
             else if platform = lit ''win32'' then (lit ''dshow'', lit ''audio=default'')
             else (lit ''pulse'', lit ''default''))
      in case ffmpeg_run input_device input_format output_filename of
           Completed \<Rightarrow> (Inr (), stop_ticker w2)
         | FfmpegError (Inr error_message) \<Rightarrow>
             (Inr (),
              stop_ticker
                (stderr_write (lit ''An ffmpeg error occurred during recording:\<newline>'' @ error_message
                   @ lit ''\<newline>'') w2))
         | FfmpegError (Inl e) \<Rightarrow> (Inl e, stop_ticker w2)
         | OtherError m \<Rightarrow>
             (Inr (),
              stop_ticker
                (stderr_write (lit ''An unexpected error occurred during recording: '' @ m
                   @ lit ''\<newline>'') w2)))"

section \<open>The command-line entry point\<close>

text \<open>
  \<open>main\<close>. The result is \<open>Inr n\<close> when the process ends with exit status \<open>n\<close> (1
  where the source calls \<open>sys.exit(1)\<close>, 0 where \<open>main\<close> returns) and \<open>Inl e\<close> when
  the exception \<open>e\<close> leaves \<open>main\<close> uncaught; the interpreter then prints a traceback to
  the error stream and the exit status is 1 (\<open>exit_status\<close>). \<open>prog\<close> is \<open>sys.argv[0]\<close>,
  \<open>args\<close> the rest of \<open>sys.argv\<close>, \<open>api_key\<close> the value of the environment variable,
  \<open>platform\<close> is \<open>sys.platform\<close>.
\<close>

definition main ::
  "tokenizer \<Rightarrow> client \<Rightarrow> (py_str \<Rightarrow> py_str \<Rightarrow> py_str \<Rightarrow> capture_outcome) \<Rightarrow> py_str \<Rightarrow> py_str
     \<Rightarrow> py_str list \<Rightarrow> py_str option \<Rightarrow> world \<Rightarrow> (py_exception + nat) \<times> world" where
  \<open>main tk cl ffmpeg_run platform prog args api_key w =
     (case args of
        [action, filename] \<Rightarrow>
          if api_key = None \<or> api_key = Some [] then
            (Inr 1, stderr_write
                  (lit ''Error: OPENAI_API_KEY environment variable not found in .env file.\<newline>'') w)
          else if action = lit ''record'' then
            (case record_audio ffmpeg_run platform filename w of
               (Inl e, w1) \<Rightarrow> (Inl e, w1)
             | (Inr u, w1) \<Rightarrow> (Inr 0, w1))
          else if action = lit ''summarize'' then
            (case transcribe_audio_with_api cl filename w of
               (None, w1) \<Rightarrow> (Inr 0, w1)
             | (Some transcript, w1) \<Rightarrow>
                 if transcript \<noteq> [] then
                   (case summarize_transcript tk cl transcript w1 of
                      (Inl e, w2) \<Rightarrow> (Inl e, w2)
                    | (Inr summary_json, w2) \<Rightarrow>
                        (let w3 = print (lit ''TRANSCRIPT:'' @ transcript @ lit ''\<newline>'') w2;
                             w4 = print (lit ''SUMMARY_JSON_START:\<newline>'' @ summary_json
                                           @ lit ''\<newline>SUMMARY_JSON_END\<newline>'') w3
                         in (Inr 0, w4)))
                 else (Inr 0, w1))
          else
            (Inr 1, stderr_write
                  (lit ''Invalid action '' @ 39 # action @ 39 # lit ''. Use '' @ 39 # lit ''record'' @ 39 # lit '' or ''
                     @ 39 # lit ''summarize'' @ 39 # lit ''.\<newline>'') w)
      | _ \<Rightarrow>
          (Inr 1, stderr_write
                (lit ''Usage: python '' @ prog @ lit '' [record|summarize] <filename.mp3>\<newline>'') w))\<close>

definition exit_status :: "py_exception + nat \<Rightarrow> nat" where
  "exit_status r = (case r of Inl e \<Rightarrow> 1 | Inr n \<Rightarrow> n)"

section \<open>Notions the properties are stated with\<close>

text \<open>
  The summaries the map step is meant to keep, following the specification's words: a
  chunk whose call fails contributes no summary, every other chunk contributes the
  non-empty response to its prompt, and the order is the order of the chunks. \<open>k\<close> is
  the index of the first chunk's call among the chat calls of the run.
\<close>

fun succeeded_summaries :: "client \<Rightarrow> nat \<Rightarrow> py_str list \<Rightarrow> py_str list" where
  "succeeded_summaries cl k [] = []"
| "succeeded_summaries cl k (chunk # rest) =
     (case completion_text (chat_completions_create cl k (map_prompt chunk) False) of
        Inl e \<Rightarrow> []
      | Inr text \<Rightarrow> if text = [] then [] else [text])
     @ succeeded_summaries cl (k + 1) rest"

text \<open>
  A condition every serialized StructuredReport meets: \<open>json.loads\<close> yields an object
  only for a text that, whitespace aside, opens with a left brace (123) and closes with a
  right brace (125). A text that fails it does not deserialize against the schema.
\<close>

definition looks_like_json_object :: "py_str \<Rightarrow> bool" where
  "looks_like_json_object s =
     (case strip s of [] \<Rightarrow> False | c # cs \<Rightarrow> c = 123 \<and> last (c # cs) = 125)"

text \<open>The three marker strings of the standard-output protocol.\<close>

definition has_marker :: "py_str \<Rightarrow> bool" where
  "has_marker s \<longleftrightarrow>
     contains_str s (lit ''TRANSCRIPT:'') \<or> contains_str s (lit ''SUMMARY_JSON_START:'')
     \<or> contains_str s (lit ''SUMMARY_JSON_END'')"

text \<open>
  What the two \<open>print\<close> calls at the end of a summarize run write, given the transcript
  and the JSON text: each \<open>print\<close> adds a newline of its own.
\<close>

definition marker_blocks :: "py_str \<Rightarrow> py_str \<Rightarrow> py_str" where
  "marker_blocks transcript summary_json =
     lit ''TRANSCRIPT:'' @ transcript @ lit ''\<newline>\<newline>''
     @ lit ''SUMMARY_JSON_START:\<newline>'' @ summary_json @ lit ''\<newline>SUMMARY_JSON_END\<newline>\<newline>''"

text \<open>The number of positions of \<open>a\<close> at which the needle starts in \<open>a @ b\<close>.\<close>

fun starts_in :: "py_str \<Rightarrow> py_str \<Rightarrow> py_str \<Rightarrow> nat" where
  "starts_in [] b needle = 0"
| "starts_in (c # cs) b needle =
     (if prefix needle (c # cs @ b) then 1 else 0) + starts_in cs b needle"

text \<open>
  \<open>diag_only w w'\<close>: from \<open>w\<close> to \<open>w'\<close> standard output only grew, by text without the
  letter R (82) and without the underscore (95); such text holds none of the markers.
\<close>

definition diag_only :: "world \<Rightarrow> world \<Rightarrow> bool" where
  "diag_only w w' \<longleftrightarrow> (\<exists>D. stdout w' = stdout w @ D \<and> 82 \<notin> set D \<and> 95 \<notin> set D)"

section \<open>Concrete inputs\<close>

text \<open>
  A tokenizer with one token per code point, a process that has done nothing yet, and
  a client whose transcription outcome is \<open>t\<close> and whose \<open>k\<close>-th chat call has the
  outcome \<open>script k\<close>.
\<close>

definition id_tokenizer :: tokenizer where
  "id_tokenizer = \<lparr>encode = (\<lambda>s. Inr s), decode = (\<lambda>ts. ts)\<rparr>"

definition fresh_world :: world where
  "fresh_world =
     \<lparr>stdout = [], stderr = [], requests = [], stop_ticker_flag = False, thread_log = []\<rparr>"

text \<open>
  A tokenizer that, like tiktoken, refuses a text that spells the special token
  \<open><|endoftext|>\<close>, and has one token per code point otherwise.
\<close>

definition guarded_tokenizer :: tokenizer where
  "guarded_tokenizer =
     \<lparr>encode = (\<lambda>s. if contains_str s (lit ''<|endoftext|>'')
                      then Inl (OtherException (lit ''disallowed special token''))
                      else Inr s),
      decode = (\<lambda>ts. ts)\<rparr>"

text \<open>
  A tokenizer in the manner of a byte-level one: a code point below 128 is one token, any
  other code point \<open>c\<close> is the two tokens \<open>128 + 2c\<close> and \<open>129 + 2c\<close>, and a token of
  such a pair that stands without its partner decodes to the replacement character
  U+FFFD (65533), as decoding with \<open>errors="replace"\<close> does.
\<close>

definition halves_encode_char :: "nat \<Rightarrow> nat list" where
  "halves_encode_char c = (if c < 128 then [c] else [128 + 2 * c, 129 + 2 * c])"

fun halves_decode :: "nat list \<Rightarrow> py_str" where
  "halves_decode [] = []"
| "halves_decode [t] = (if t < 128 then [t] else [65533])"
| "halves_decode (t # u # ts) =
     (if t < 128 then t # halves_decode (u # ts)
      else if even t \<and> u = t + 1 then ((t - 128) div 2) # halves_decode ts
      else 65533 # halves_decode (u # ts))"


definition scripted_client ::
  "py_exception + py_str \<Rightarrow> (nat \<Rightarrow> py_exception + py_str option list) \<Rightarrow> client" where
  "scripted_client t script =
     \<lparr>transcriptions_create = (\<lambda>filename. t),
      chat_completions_create = (\<lambda>k prompt is_json. script k)\<rparr>"

section \<open>Chunking\<close>

lemma token_slices_Nil: "token_slices [] = []"
  by (simp add: token_slices.simps [of "[]"])

lemma token_slices_Cons:
  "tokens \<noteq> [] \<Longrightarrow>
   token_slices tokens =
     take MAX_TOKENS_PER_CHUNK tokens # token_slices (drop MAX_TOKENS_PER_CHUNK tokens)"
  by (subst token_slices.simps) simp

lemma chunk_loop_Nil: "chunk_loop tk [] chunks = chunks"
  by (simp add: chunk_loop.simps [of tk "[]"])

lemma chunk_loop_Cons:
  "tokens \<noteq> [] \<Longrightarrow>
   chunk_loop tk tokens chunks =
     chunk_loop tk (drop MAX_TOKENS_PER_CHUNK tokens)
       (chunks @ [decode tk (take MAX_TOKENS_PER_CHUNK tokens)])"
  by (subst chunk_loop.simps) simp

lemma chunk_loop_slices:
  "chunk_loop tk tokens chunks = chunks @ map (decode tk) (token_slices tokens)"
proof (induction tk tokens chunks rule: chunk_loop.induct)
  case (1 tk tokens chunks)
  show ?case
  proof (cases "tokens = []")
    case True
    then show ?thesis by (simp add: chunk_loop_Nil token_slices_Nil)
  next
    case False
    with "1" show ?thesis by (simp add: chunk_loop_Cons token_slices_Cons)
  qed
qed



lemma token_slices_20000:
  assumes "length tokens = 20000"
  shows "token_slices tokens = [take 8000 tokens, take 8000 (drop 8000 tokens), drop 16000 tokens]"
proof -
  from assms have a: "tokens \<noteq> []" by auto
  from assms have b: "drop 8000 tokens \<noteq> []" by auto
  from assms have c: "drop 8000 (drop 8000 tokens) \<noteq> []" by auto
  from assms have d: "drop 8000 (drop 8000 (drop 8000 tokens)) = []" by auto
  from assms have e: "take 8000 (drop 16000 tokens) = drop 16000 tokens" by auto
  show ?thesis
    using a b c d e
    by (simp add: token_slices_Cons token_slices_Nil MAX_TOKENS_PER_CHUNK_def)
qed

lemma token_slices_8001:
  "token_slices (replicate 8001 (97::nat)) = [replicate 8000 97, [97]]"
  by (simp add: token_slices_Cons token_slices_Nil MAX_TOKENS_PER_CHUNK_def)


section \<open>Streams, adapter and map step\<close>

lemma print_fields:
  "stdout (print s w) = stdout w @ s @ lit ''\<newline>''"
  "stderr (print s w) = stderr w"
  "requests (print s w) = requests w"
  "stop_ticker_flag (print s w) = stop_ticker_flag w"
  "thread_log (print s w) = thread_log w"
  by (simp_all add: print_def)

lemma stderr_write_fields:
  "stdout (stderr_write s w) = stdout w"
  "stderr (stderr_write s w) = stderr w @ s"
  "requests (stderr_write s w) = requests w"
  "stop_ticker_flag (stderr_write s w) = stop_ticker_flag w"
  "thread_log (stderr_write s w) = thread_log w"
  by (simp_all add: stderr_write_def)

lemma llm_fst:
  "fst (get_llm_response cl prompt is_json w) =
     (case completion_text (chat_completions_create cl (length (requests w)) prompt is_json) of
        Inl e \<Rightarrow> if is_json then lit ''{}'' else []
      | Inr text \<Rightarrow> text)"
  by (simp add: get_llm_response_def Let_def split: sum.splits py_exception.splits)

lemma llm_requests:
  "requests (snd (get_llm_response cl prompt is_json w)) = requests w @ [(prompt, is_json)]"
  by (simp add: get_llm_response_def Let_def stderr_write_fields split: sum.splits py_exception.splits)

lemma llm_stdout:
  "stdout (snd (get_llm_response cl prompt is_json w)) = stdout w"
  by (simp add: get_llm_response_def Let_def stderr_write_fields split: sum.splits py_exception.splits)

lemma llm_stderr:
  "stderr (snd (get_llm_response cl prompt is_json w)) =
     stderr w @
     (case completion_text (chat_completions_create cl (length (requests w)) prompt is_json) of
        Inl (APIError m) \<Rightarrow> lit ''OpenAI API Error during summarization: '' @ m @ lit ''\<newline>''
      | Inl (OtherException m) \<Rightarrow>
          lit ''An unexpected error occurred during summarization: '' @ m @ lit ''\<newline>''
      | Inr text \<Rightarrow> [])"
  by (simp add: get_llm_response_def Let_def stderr_write_fields split: sum.splits py_exception.splits)

lemma map_loop_fst:
  "fst (map_loop cl n i chunks sums w) = sums @ succeeded_summaries cl (length (requests w)) chunks"
proof (induction chunks arbitrary: i sums w)
  case Nil
  show ?case by simp
next
  case (Cons chunk rest)
  show ?case
    by (simp add: Let_def case_prod_beta Cons.IH llm_fst llm_requests print_fields
        split: sum.splits)
qed

lemma map_loop_requests:
  "requests (snd (map_loop cl n i chunks sums w)) =
     requests w @ map (\<lambda>c. (map_prompt c, False)) chunks"
proof (induction chunks arbitrary: i sums w)
  case Nil
  show ?case by simp
next
  case (Cons chunk rest)
  show ?case
    by (simp add: Let_def case_prod_beta Cons.IH llm_requests print_fields)
qed

lemma str_nat_digits: "c \<in> set (str_nat n) \<Longrightarrow> 48 \<le> c \<and> c \<le> 57"
proof (induction n rule: str_nat.induct)
  case (1 n)
  show ?case
  proof (cases "n < 10")
    case True
    with "1.prems" show ?thesis by (simp add: str_nat.simps [of n])
  next
    case False
    with "1.prems" have "c \<in> set (str_nat (n div 10)) \<or> c = 48 + n mod 10"
      by (subst (asm) str_nat.simps) auto
    then show ?thesis
    proof
      assume "c \<in> set (str_nat (n div 10))"
      with False "1.IH" show ?thesis by simp
    next
      assume c: "c = 48 + n mod 10"
      have "n mod 10 < 10" by simp
      with c show ?thesis by linarith
    qed
  qed
qed

lemma str_nat_safe: "82 \<notin> set (str_nat n)" "95 \<notin> set (str_nat n)"
  using str_nat_digits [of 82 n] str_nat_digits [of 95 n] by auto

lemma diag_only_refl: "diag_only w w"
  by (simp add: diag_only_def)

lemma diag_only_trans: "diag_only w w' \<Longrightarrow> diag_only w' w'' \<Longrightarrow> diag_only w w''"
  by (auto simp: diag_only_def)

lemma diag_only_print:
  "82 \<notin> set s \<Longrightarrow> 95 \<notin> set s \<Longrightarrow> diag_only w (print s w)"
  by (simp add: diag_only_def print_fields lit_def)

lemma diag_only_same: "stdout w' = stdout w \<Longrightarrow> diag_only w w'"
  by (simp add: diag_only_def)

lemma map_loop_diag: "diag_only w (snd (map_loop cl n i chunks sums w))"
proof (induction chunks arbitrary: i sums w)
  case Nil
  show ?case by (simp add: diag_only_refl)
next
  case (Cons chunk rest)
  let ?line = "lit ''  - Processing chunk '' @ str_nat (i + 1) @ lit ''/'' @ str_nat n @ lit ''...''"
  let ?w1 = "print ?line w"
  let ?w2 = "snd (get_llm_response cl (map_prompt chunk) False ?w1)"
  have a: "diag_only w ?w1"
    by (rule diag_only_print) (simp_all add: str_nat_safe lit_def)
  have b: "diag_only ?w1 ?w2"
    by (rule diag_only_same) (simp add: llm_stdout)
  have c: "\<And>j s. diag_only ?w2 (snd (map_loop cl n j rest s ?w2))"
    by (rule Cons.IH)
  show ?case
    unfolding map_loop.simps Let_def case_prod_beta
    by (rule diag_only_trans [OF a], rule diag_only_trans [OF b], rule c)
qed

section \<open>The summarizer as a whole\<close>

lemma summarize_raises:
  "encode tk T = Inl e \<Longrightarrow>
   summarize_transcript tk cl T w = (Inl e, print (lit ''Starting summarization process...'') w)"
  by (simp add: summarize_transcript_def Let_def)

lemma summarize_fst:
  assumes "encode tk T = Inr tokens"
  shows "fst (summarize_transcript tk cl T w) =
     Inr (let chunks = chunk_loop tk tokens [];
              sums = succeeded_summaries cl (length (requests w)) chunks
          in if sums = [] then lit ''{}''
             else case completion_text
                    (chat_completions_create cl (length (requests w) + length chunks)
                       (reduce_prompt (str_join (lit ''\<newline>\<newline>---\<newline>\<newline>'') sums)) True) of
                    Inl e \<Rightarrow> lit ''{}''
                  | Inr text \<Rightarrow> text)"
  by (simp add: summarize_transcript_def assms Let_def case_prod_beta map_loop_fst map_loop_requests
      llm_fst print_fields)

lemma summarize_requests:
  assumes "encode tk T = Inr tokens"
  shows "requests (snd (summarize_transcript tk cl T w)) =
     (let chunks = chunk_loop tk tokens [];
          sums = succeeded_summaries cl (length (requests w)) chunks
      in requests w @ map (\<lambda>c. (map_prompt c, False)) chunks @
         (if sums = [] then []
          else [(reduce_prompt (str_join (lit ''\<newline>\<newline>---\<newline>\<newline>'') sums), True)]))"
  by (simp add: summarize_transcript_def assms Let_def case_prod_beta map_loop_fst map_loop_requests
      llm_requests print_fields stderr_write_fields)

lemma summarize_stderr_none:
  assumes "encode tk T = Inr tokens"
    and "succeeded_summaries cl (length (requests w)) (chunk_loop tk tokens []) = []"
  shows "suffix (lit ''Could not generate summaries for any transcript chunks.\<newline>'')
           (stderr (snd (summarize_transcript tk cl T w)))"
  using assms(2)
  by (simp add: summarize_transcript_def assms(1) Let_def case_prod_beta map_loop_fst print_fields
      stderr_write_fields suffix_def)

lemma summarize_diag: "diag_only w (snd (summarize_transcript tk cl T w))"
proof (cases "encode tk T")
  case (Inl e)
  have "diag_only w (print (lit ''Starting summarization process...'') w)"
    by (rule diag_only_print) (simp_all add: lit_def)
  then show ?thesis by (simp add: summarize_raises [OF Inl])
next
  case (Inr tokens)
  let ?w1 = "print (lit ''Starting summarization process...'') w"
  let ?w2 = "print (lit ''Splitting transcript into chunks...'') ?w1"
  let ?chunks = "chunk_loop tk tokens []"
  let ?w3 = "print (lit ''Summarizing '' @ str_nat (length ?chunks) @ lit '' chunk(s) of text...'') ?w2"
  let ?m = "map_loop cl (length ?chunks) 0 ?chunks [] ?w3"
  let ?w5 = "print (lit ''Generating final consolidated summary...'') (snd ?m)"
  have a: "diag_only w ?w1" by (rule diag_only_print) (simp_all add: lit_def)
  have b: "diag_only ?w1 ?w2" by (rule diag_only_print) (simp_all add: lit_def)
  have c: "diag_only ?w2 ?w3" by (rule diag_only_print) (simp_all add: lit_def str_nat_safe)
  have d: "diag_only ?w3 (snd ?m)" by (rule map_loop_diag)
  have w4: "diag_only w (snd ?m)"
    by (rule diag_only_trans [OF a], rule diag_only_trans [OF b], rule diag_only_trans [OF c], rule d)
  have e: "diag_only (snd ?m) (stderr_write s (snd ?m))" for s
    by (rule diag_only_same) (simp add: stderr_write_fields)
  have f: "diag_only (snd ?m) ?w5" by (rule diag_only_print) (simp_all add: lit_def)
  have g: "diag_only ?w5 (snd (get_llm_response cl p True ?w5))" for p
    by (rule diag_only_same) (simp add: llm_stdout)
  have h: "diag_only w' (print (lit ''Summarization complete.'') w')" for w'
    by (rule diag_only_print) (simp_all add: lit_def)
  have eq: "snd (summarize_transcript tk cl T w) =
      (if fst ?m = [] then
         stderr_write (lit ''Could not generate summaries for any transcript chunks.\<newline>'') (snd ?m)
       else print (lit ''Summarization complete.'')
            (snd (get_llm_response cl
               (reduce_prompt (str_join (lit ''\<newline>\<newline>---\<newline>\<newline>'') (fst ?m))) True ?w5)))"
    by (simp add: summarize_transcript_def Inr Let_def case_prod_beta)
  show ?thesis
  proof (cases "fst ?m = []")
    case True
    have "diag_only w
        (stderr_write (lit ''Could not generate summaries for any transcript chunks.\<newline>'') (snd ?m))"
      by (rule diag_only_trans [OF w4 e])
    then show ?thesis by (simp only: eq if_P [OF True])
  next
    case False
    have "diag_only w (print (lit ''Summarization complete.'')
            (snd (get_llm_response cl
               (reduce_prompt (str_join (lit ''\<newline>\<newline>---\<newline>\<newline>'') (fst ?m))) True ?w5)))"
      by (rule diag_only_trans [OF diag_only_trans [OF diag_only_trans [OF w4 f] g] h])
    then show ?thesis by (simp only: eq if_not_P [OF False])
  qed
qed

section \<open>Evaluation on concrete inputs\<close>

lemma strip_whitespace:
  assumes "\<forall>c \<in> set s. py_isspace c"
  shows "strip s = []"
proof -
  from assms have h: "dropWhile py_isspace s = []" by simp
  show ?thesis unfolding strip_def h by simp
qed

lemma str_nat_digit: "n < 10 \<Longrightarrow> str_nat n = [48 + n]"
  by (simp add: str_nat.simps [of n])

lemma id_encode: "encode id_tokenizer s = Inr s"
  by (simp add: id_tokenizer_def)

lemma id_chunks_8001:
  "chunk_loop id_tokenizer (replicate 8001 97) [] = [replicate 8000 97, [97]]"
  by (simp add: chunk_loop_slices id_tokenizer_def token_slices_8001)

lemma id_chunks_20000:
  "chunk_loop id_tokenizer (replicate 20000 97) []
     = [replicate 8000 97, replicate 8000 97, replicate 4000 97]"
  by (simp add: chunk_loop_slices id_tokenizer_def token_slices_20000)

lemma id_chunks_short:
  "s \<noteq> [] \<Longrightarrow> length s \<le> 8000 \<Longrightarrow> chunk_loop id_tokenizer s [] = [s]"
  by (simp add: chunk_loop_slices id_tokenizer_def token_slices_Cons token_slices_Nil
      MAX_TOKENS_PER_CHUNK_def)

lemma id_chunks_hi: "chunk_loop id_tokenizer (lit ''hi'') [] = [lit ''hi'']"
  by (rule id_chunks_short) (simp_all add: lit_def)

lemmas eval_simps =
  scripted_client_def completion_text_def strip_def py_isspace_def lit_def fresh_world_def

section \<open>Markers\<close>

lemma contains_str_set: "contains_str h n \<Longrightarrow> set n \<subseteq> set h"
proof (induction h)
  case Nil
  then show ?case by simp
next
  case (Cons c cs)
  from Cons.prems have "prefix n (c # cs) \<or> contains_str cs n" by simp
  then show ?case
  proof
    assume "prefix n (c # cs)"
    then show ?thesis by (rule set_mono_prefix)
  next
    assume "contains_str cs n"
    with Cons.IH show ?thesis by auto
  qed
qed

lemma no_marker:
  assumes "82 \<notin> set D" and "95 \<notin> set D"
  shows "\<not> has_marker D"
proof
  assume "has_marker D"
  then consider "contains_str D (lit ''TRANSCRIPT:'')" | "contains_str D (lit ''SUMMARY_JSON_START:'')"
    | "contains_str D (lit ''SUMMARY_JSON_END'')"
    by (auto simp: has_marker_def)
  then show False
  proof cases
    case 1
    then have "set (lit ''TRANSCRIPT:'') \<subseteq> set D" by (rule contains_str_set)
    with assms(1) show False by (simp add: lit_def)
  next
    case 2
    then have "set (lit ''SUMMARY_JSON_START:'') \<subseteq> set D" by (rule contains_str_set)
    with assms(2) show False by (simp add: lit_def)
  next
    case 3
    then have "set (lit ''SUMMARY_JSON_END'') \<subseteq> set D" by (rule contains_str_set)
    with assms(2) show False by (simp add: lit_def)
  qed
qed

lemma diag_only_no_marker:
  assumes "diag_only w w'"
  shows "take (length (stdout w)) (stdout w') = stdout w
    \<and> \<not> has_marker (drop (length (stdout w)) (stdout w'))"
proof -
  from assms obtain D where D: "stdout w' = stdout w @ D" "82 \<notin> set D" "95 \<notin> set D"
    by (auto simp: diag_only_def)
  from D(2,3) have "\<not> has_marker D" by (rule no_marker)
  with D(1) show ?thesis by simp
qed

lemma count_str_append: "count_str (a @ b) n = starts_in a b n + count_str b n"
  by (induction a) simp_all

lemma count_str_absent: "\<not> contains_str h n \<Longrightarrow> count_str h n = 0"
  by (induction h) auto

lemma prefix_before: "x \<notin> set n \<Longrightarrow> prefix n (s @ x # Y) \<longleftrightarrow> prefix n s"
  by (auto simp: prefix_append prefix_Cons)

lemma starts_in_before:
  assumes "x \<notin> set n" and "n \<noteq> []"
  shows "starts_in a (x # Y) n = count_str a n"
proof (induction a)
  case Nil
  show ?case using assms(2) by simp
next
  case (Cons c cs)
  have "prefix n (c # cs @ x # Y) \<longleftrightarrow> prefix n (c # cs)"
    using prefix_before [OF assms(1), of "c # cs" Y] by simp
  with Cons show ?case by simp
qed

lemma no_prefix_across:
  "x \<notin> set D \<Longrightarrow> hd X \<notin> set (p @ [x]) \<Longrightarrow> \<not> prefix (p @ x # q) (D @ X)"
proof (induction D arbitrary: p)
  case Nil
  then show ?case by (cases X; cases p) auto
next
  case (Cons c cs)
  show ?case
  proof (cases p)
    case Nil
    with Cons.prems show ?thesis by auto
  next
    case (Cons a p')
    with Cons.prems Cons.IH [of p'] show ?thesis by auto
  qed
qed

lemma starts_in_free:
  "x \<notin> set D \<Longrightarrow> hd X \<notin> set (tl (p @ [x])) \<Longrightarrow> starts_in D X (p @ x # q) = 0"
proof (induction D)
  case Nil
  show ?case by simp
next
  case (Cons c cs)
  have "\<not> prefix (p @ x # q) (c # cs @ X)"
  proof (cases p)
    case Nil
    with Cons.prems show ?thesis by auto
  next
    case (Cons a p')
    with Cons.prems no_prefix_across [of x cs X p' q] show ?thesis by auto
  qed
  with Cons show ?case by simp
qed

lemma blocks_count:
  assumes "82 \<notin> set D" and "95 \<notin> set D" and "\<not> has_marker t" and "\<not> has_marker j"
  shows "count_str (D @ marker_blocks t j) (lit ''TRANSCRIPT:'') = 1
    \<and> count_str (D @ marker_blocks t j) (lit ''SUMMARY_JSON_START:'') = 1
    \<and> count_str (D @ marker_blocks t j) (lit ''SUMMARY_JSON_END'') = 1"
proof -
  let ?X = "marker_blocks t j"
  have hd: "hd ?X = 84" by (simp add: marker_blocks_def lit_def)
  have m1: "lit ''TRANSCRIPT:'' = lit ''T'' @ 82 # lit ''ANSCRIPT:''" by (simp add: lit_def)
  have m2: "lit ''SUMMARY_JSON_START:'' = lit ''SUMMARY'' @ 95 # lit ''JSON_START:''"
    by (simp add: lit_def)
  have m3: "lit ''SUMMARY_JSON_END'' = lit ''SUMMARY'' @ 95 # lit ''JSON_END''"
    by (simp add: lit_def)
  have d1: "starts_in D ?X (lit ''TRANSCRIPT:'') = 0"
    unfolding m1 by (rule starts_in_free [OF assms(1)]) (simp add: hd lit_def)
  have d2: "starts_in D ?X (lit ''SUMMARY_JSON_START:'') = 0"
    unfolding m2 by (rule starts_in_free [OF assms(2)]) (simp add: hd lit_def)
  have d3: "starts_in D ?X (lit ''SUMMARY_JSON_END'') = 0"
    unfolding m3 by (rule starts_in_free [OF assms(2)]) (simp add: hd lit_def)
  have t0: "count_str t (lit ''TRANSCRIPT:'') = 0" "count_str t (lit ''SUMMARY_JSON_START:'') = 0"
    "count_str t (lit ''SUMMARY_JSON_END'') = 0"
    using assms(3) by (simp_all add: has_marker_def count_str_absent)
  have j0: "count_str j (lit ''TRANSCRIPT:'') = 0" "count_str j (lit ''SUMMARY_JSON_START:'') = 0"
    "count_str j (lit ''SUMMARY_JSON_END'') = 0"
    using assms(4) by (simp_all add: has_marker_def count_str_absent)
  have nl: "10 \<notin> set (lit ''TRANSCRIPT:'')" "10 \<notin> set (lit ''SUMMARY_JSON_START:'')"
    "10 \<notin> set (lit ''SUMMARY_JSON_END'')"
    "lit ''TRANSCRIPT:'' \<noteq> []" "lit ''SUMMARY_JSON_START:'' \<noteq> []" "lit ''SUMMARY_JSON_END'' \<noteq> []"
    by (simp_all add: lit_def)
  have tb: "starts_in t (10 # Y) (lit ''TRANSCRIPT:'') = 0"
    "starts_in t (10 # Y) (lit ''SUMMARY_JSON_START:'') = 0"
    "starts_in t (10 # Y) (lit ''SUMMARY_JSON_END'') = 0" for Y
    using nl t0 by (simp_all add: starts_in_before)
  have jb: "starts_in j (10 # Y) (lit ''TRANSCRIPT:'') = 0"
    "starts_in j (10 # Y) (lit ''SUMMARY_JSON_START:'') = 0"
    "starts_in j (10 # Y) (lit ''SUMMARY_JSON_END'') = 0" for Y
    using nl j0 by (simp_all add: starts_in_before)
  have x1: "count_str ?X (lit ''TRANSCRIPT:'') = 1"
    unfolding marker_blocks_def
    by (simp add: lit_def count_str_append tb [unfolded lit_def, simplified]
        jb [unfolded lit_def, simplified])
  have x2: "count_str ?X (lit ''SUMMARY_JSON_START:'') = 1"
    unfolding marker_blocks_def
    by (simp add: lit_def count_str_append tb [unfolded lit_def, simplified]
        jb [unfolded lit_def, simplified])
  have x3: "count_str ?X (lit ''SUMMARY_JSON_END'') = 1"
    unfolding marker_blocks_def
    by (simp add: lit_def count_str_append tb [unfolded lit_def, simplified]
        jb [unfolded lit_def, simplified])
  show ?thesis
    by (simp add: count_str_append [of D] d1 d2 d3 x1 x2 x3)
qed

section \<open>The entry point\<close>

lemma transcribe_ok:
  "transcriptions_create cl filename = Inr transcript \<Longrightarrow>
   transcribe_audio_with_api cl filename w =
     (Some transcript,
      print (lit ''Transcription successful.'')
        (print (lit ''Uploading audio for transcription via API... This may take a moment.'') w))"
  by (simp add: transcribe_audio_with_api_def Let_def)

lemma transcribe_failed:
  "transcriptions_create cl filename = Inl e \<Longrightarrow>
   transcribe_audio_with_api cl filename w =
     (None,
      stderr_write
        (case e of
           APIError m \<Rightarrow> lit ''OpenAI API Error during transcription: '' @ m @ lit ''\<newline>''
         | OtherException m \<Rightarrow>
             lit ''An unexpected error occurred during transcription: '' @ m @ lit ''\<newline>'')
        (print (lit ''Uploading audio for transcription via API... This may take a moment.'') w))"
  by (cases e) (simp_all add: transcribe_audio_with_api_def Let_def)

lemma transcribe_diag: "diag_only w (snd (transcribe_audio_with_api cl filename w))"
proof -
  let ?w1 = "print (lit ''Uploading audio for transcription via API... This may take a moment.'') w"
  have a: "diag_only w ?w1" by (rule diag_only_print) (simp_all add: lit_def)
  have b: "diag_only ?w1 (print (lit ''Transcription successful.'') ?w1)"
    by (rule diag_only_print) (simp_all add: lit_def)
  have c: "diag_only ?w1 (stderr_write s ?w1)" for s
    by (rule diag_only_same) (simp add: stderr_write_fields)
  show ?thesis
    using diag_only_trans [OF a b] diag_only_trans [OF a c]
    by (simp add: transcribe_audio_with_api_def Let_def split: sum.splits py_exception.splits)
qed

lemma summarize_not_record: "lit ''summarize'' \<noteq> lit ''record''"
  by (simp add: lit_def)

lemma main_no_transcript:
  assumes "k \<noteq> []" and "fst (transcribe_audio_with_api cl filename w) = None"
  shows "main tk cl ffmpeg_run platform prog [lit ''summarize'', filename] (Some k) w =
           (Inr 0, snd (transcribe_audio_with_api cl filename w))"
  using assms summarize_not_record
  by (simp add: main_def case_prod_beta)

lemma main_empty_transcript:
  assumes "k \<noteq> []" and "fst (transcribe_audio_with_api cl filename w) = Some []"
  shows "main tk cl ffmpeg_run platform prog [lit ''summarize'', filename] (Some k) w =
           (Inr 0, snd (transcribe_audio_with_api cl filename w))"
  using assms summarize_not_record
  by (simp add: main_def case_prod_beta)

lemma main_uncaught:
  assumes "k \<noteq> []" and "fst (transcribe_audio_with_api cl filename w) = Some transcript"
    and "transcript \<noteq> []"
    and "fst (summarize_transcript tk cl transcript (snd (transcribe_audio_with_api cl filename w)))
           = Inl e"
  shows "main tk cl ffmpeg_run platform prog [lit ''summarize'', filename] (Some k) w =
           (Inl e, snd (summarize_transcript tk cl transcript
              (snd (transcribe_audio_with_api cl filename w))))"
  using assms summarize_not_record
  by (simp add: main_def case_prod_beta)

lemma main_blocks:
  assumes "k \<noteq> []" and "fst (transcribe_audio_with_api cl filename w) = Some transcript"
    and "transcript \<noteq> []"
    and "fst (summarize_transcript tk cl transcript (snd (transcribe_audio_with_api cl filename w)))
           = Inr json"
  shows "main tk cl ffmpeg_run platform prog [lit ''summarize'', filename] (Some k) w =
           (Inr 0,
            print (lit ''SUMMARY_JSON_START:\<newline>'' @ json @ lit ''\<newline>SUMMARY_JSON_END\<newline>'')
              (print (lit ''TRANSCRIPT:'' @ transcript @ lit ''\<newline>'')
                 (snd (summarize_transcript tk cl transcript
                    (snd (transcribe_audio_with_api cl filename w))))))"
  using assms summarize_not_record
  by (simp add: main_def case_prod_beta Let_def)

lemma blocks_printed:
  "stdout (print (lit ''SUMMARY_JSON_START:\<newline>'' @ json @ lit ''\<newline>SUMMARY_JSON_END\<newline>'')
      (print (lit ''TRANSCRIPT:'' @ transcript @ lit ''\<newline>'') w))
     = stdout w @ marker_blocks transcript json"
  by (simp add: print_fields marker_blocks_def lit_def)

lemma summarize_returns:
  "encode tk T = Inr tokens \<Longrightarrow> \<exists>json. fst (summarize_transcript tk cl T w) = Inr json"
  by (simp add: summarize_fst)

section \<open>The capture controller\<close>

lemma stop_ticker_fields:
  "thread_log (stop_ticker w) = thread_log w @ [SetStopFlag True, ThreadJoin]"
  "stop_ticker_flag (stop_ticker w) = True"
  "stdout (stop_ticker w) = stdout w @ lit ''\<newline>Recording process finished.\<newline>''"
  "stderr (stop_ticker w) = stderr w"
  by (simp_all add: stop_ticker_def print_def lit_def)

lemma record_audio_fields:
  "thread_log (snd (record_audio ffmpeg_run platform output_filename w)) =
     thread_log w @ [SetStopFlag False, ThreadStart, SetStopFlag True, ThreadJoin]
   \<and> stop_ticker_flag (snd (record_audio ffmpeg_run platform output_filename w)) = True
   \<and> suffix (lit ''\<newline>Recording process finished.\<newline>'')
        (stdout (snd (record_audio ffmpeg_run platform output_filename w)))"
proof -
  let ?sel = "if platform = lit ''darwin'' then (lit ''avfoundation'', lit '':0'')
     else if platform = lit ''win32'' then (lit ''dshow'', lit ''audio=default'')
     else (lit ''pulse'', lit ''default'')"
  let ?w1 = "w\<lparr>stop_ticker_flag := False, thread_log := thread_log w @ [SetStopFlag False, ThreadStart]\<rparr>"
  let ?w2 = "print (lit ''Starting recording... Press '' @ 39 # lit ''Stop Recording'' @ 39
                        # lit '' in the GUI to finish.'') ?w1"
  have l2: "thread_log ?w2 = thread_log w @ [SetStopFlag False, ThreadStart]"
    by (simp add: print_fields)
  have fin: "thread_log (stop_ticker v) =
       thread_log w @ [SetStopFlag False, ThreadStart, SetStopFlag True, ThreadJoin]
     \<and> stop_ticker_flag (stop_ticker v) = True
     \<and> suffix (lit ''\<newline>Recording process finished.\<newline>'') (stdout (stop_ticker v))"
    if "thread_log v = thread_log w @ [SetStopFlag False, ThreadStart]" for v
    using that by (simp add: stop_ticker_fields suffix_def)
  have eq: "snd (record_audio ffmpeg_run platform output_filename w) =
      (case ffmpeg_run (snd ?sel) (fst ?sel) output_filename of
         Completed \<Rightarrow> stop_ticker ?w2
       | FfmpegError (Inr error_message) \<Rightarrow>
           stop_ticker
             (stderr_write (lit ''An ffmpeg error occurred during recording:\<newline>'' @ error_message
                @ lit ''\<newline>'') ?w2)
       | FfmpegError (Inl e) \<Rightarrow> stop_ticker ?w2
       | OtherError m \<Rightarrow>
           stop_ticker
             (stderr_write (lit ''An unexpected error occurred during recording: '' @ m
                @ lit ''\<newline>'') ?w2))"
    unfolding record_audio_def Let_def case_prod_beta
    by (simp only: split: capture_outcome.splits sum.splits) simp
  show ?thesis
  proof (cases "ffmpeg_run (snd ?sel) (fst ?sel) output_filename")
    case Completed
    show ?thesis unfolding eq Completed using fin [OF l2] by simp
  next
    case (FfmpegError r)
    show ?thesis
    proof (cases r)
      case (Inl e)
      show ?thesis unfolding eq FfmpegError Inl using fin [OF l2] by simp
    next
      case (Inr error_message)
      have "thread_log (stderr_write (lit ''An ffmpeg error occurred during recording:\<newline>''
          @ error_message @ lit ''\<newline>'') ?w2) = thread_log w @ [SetStopFlag False, ThreadStart]"
        by (simp add: stderr_write_fields print_fields)
      from fin [OF this] show ?thesis unfolding eq FfmpegError Inr by simp
    qed
  next
    case (OtherError m)
    have "thread_log (stderr_write (lit ''An unexpected error occurred during recording: '' @ m
          @ lit ''\<newline>'') ?w2) = thread_log w @ [SetStopFlag False, ThreadStart]"
      by (simp add: stderr_write_fields print_fields)
    from fin [OF this] show ?thesis unfolding eq OtherError by simp
  qed
qed

lemma display_ticker_stops:
  "snd (display_ticker (readings @ (True, elapsed) # later)) = True"
  by (induction readings) (auto simp: case_prod_beta Let_def)

section \<open>The tokenizer of halves\<close>

lemma halves_decode_low: "t < 128 \<Longrightarrow> halves_decode (t # ts) = t # halves_decode ts"
  by (cases ts) simp_all

lemma halves_decode_pair:
  "128 \<le> c \<Longrightarrow> halves_decode ((128 + 2 * c) # (129 + 2 * c) # ts) = c # halves_decode ts"
  by simp

lemma halves_roundtrip: "halves_decode (concat (map halves_encode_char s)) = s"
proof (induction s)
  case Nil
  show ?case by simp
next
  case (Cons c s)
  show ?case
  proof (cases "c < 128")
    case True
    with Cons show ?thesis by (simp add: halves_encode_char_def halves_decode_low)
  next
    case False
    then have "128 \<le> c" by simp
    from halves_decode_pair [OF this] Cons False show ?thesis
      by (simp add: halves_encode_char_def)
  qed
qed



section \<open>The claims\<close>




text \<open>
  C2, as amended. For a transcript that the tokenizer encodes, whenever at least one
  chunk call succeeds, whatever the others do: the map step keeps exactly the summaries
  of the succeeded chunks, in chunk order (\<open>succeeded_summaries\<close>); every chunk is sent,
  so a failed chunk does not stop the run; one reduce request follows, built from those
  summaries alone; and what \<open>summarize_transcript\<close> returns is what \<open>get_llm_response\<close>
  returns for that request: the stripped response text, or \<open>{}\<close> when the call fails.
  Nothing makes that text a valid report.
\<close>

theorem map_reduce_uses_only_succeeded_summaries:
  assumes "encode tk T = Inr tokens"
    and "succeeded_summaries cl (length (requests w)) (chunk_loop tk tokens []) \<noteq> []"
  shows "fst (map_loop cl n i chunks [] w') = succeeded_summaries cl (length (requests w')) chunks
    \<and> requests (snd (summarize_transcript tk cl T w)) =
        requests w @ map (\<lambda>c. (map_prompt c, False)) (chunk_loop tk tokens []) @
        [(reduce_prompt (str_join (lit ''\<newline>\<newline>---\<newline>\<newline>'')
            (succeeded_summaries cl (length (requests w)) (chunk_loop tk tokens []))), True)]
    \<and> fst (summarize_transcript tk cl T w) =
        Inr (fst (get_llm_response cl
          (reduce_prompt (str_join (lit ''\<newline>\<newline>---\<newline>\<newline>'')
            (succeeded_summaries cl (length (requests w)) (chunk_loop tk tokens [])))) True
          (w\<lparr>requests := requests w @ map (\<lambda>c. (map_prompt c, False)) (chunk_loop tk tokens [])\<rparr>)))"
  using assms(2)
  by (simp add: map_loop_fst summarize_requests [OF assms(1)] summarize_fst [OF assms(1)] llm_fst Let_def)

theorem map_reduce_uses_only_succeeded_summaries_witness:
  "encode id_tokenizer (replicate 8001 97) = Inr (replicate 8001 97)
   \<and> succeeded_summaries
     (scripted_client (Inr [])
        (\<lambda>k. if k = 0 then Inl (APIError (lit ''rate limit''))
             else if k = 1 then Inr [Some (lit '' notes '')] else Inr [Some (lit ''{}'')]))
     (length (requests fresh_world))
     (chunk_loop id_tokenizer (replicate 8001 97) []) = [lit ''notes'']
   \<and> map snd (requests (snd (summarize_transcript id_tokenizer
        (scripted_client (Inr [])
           (\<lambda>k. if k = 0 then Inl (APIError (lit ''rate limit''))
                else if k = 1 then Inr [Some (lit '' notes '')] else Inr [Some (lit ''{}'')]))
        (replicate 8001 97) fresh_world))) = [False, False, True]
   \<and> fst (summarize_transcript id_tokenizer
        (scripted_client (Inr [])
           (\<lambda>k. if k = 0 then Inl (APIError (lit ''rate limit''))
                else if k = 1 then Inr [Some (lit '' notes '')] else Inr [Some (lit ''{}'')]))
        (replicate 8001 97) fresh_world) = Inr (lit ''{}'')"
proof -
  let ?cl = "scripted_client (Inr [])
        (\<lambda>k. if k = 0 then Inl (APIError (lit ''rate limit''))
             else if k = 1 then Inr [Some (lit '' notes '')] else Inr [Some (lit ''{}'')])"
  have s: "succeeded_summaries ?cl (length (requests fresh_world))
     (chunk_loop id_tokenizer (replicate 8001 97) []) = [lit ''notes'']"
    by (simp add: id_chunks_8001 eval_simps)
  then have ne: "succeeded_summaries ?cl (length (requests fresh_world))
     (chunk_loop id_tokenizer (replicate 8001 97) []) \<noteq> []"
    by simp
  show ?thesis
    using map_reduce_uses_only_succeeded_summaries [OF id_encode ne, of 0 0 "[]" fresh_world] s
    by (simp add: id_chunks_8001 llm_fst id_encode) (simp add: eval_simps)
qed

text \<open>
  As first stated the claim promises a valid StructuredReport. Here the first chunk call
  fails, the second succeeds, and the reduce call answers in prose: the prose is returned.
\<close>

theorem map_reduce_report_counterexample:
  "succeeded_summaries
     (scripted_client (Inr [])
        (\<lambda>k. if k = 0 then Inl (APIError (lit ''rate limit''))
             else if k = 1 then Inr [Some (lit ''notes'')] else Inr [Some (lit ''Sorry, no report.'')]))
     0 (chunk_loop id_tokenizer (replicate 8001 97) []) = [lit ''notes'']
   \<and> fst (summarize_transcript id_tokenizer
          (scripted_client (Inr [])
             (\<lambda>k. if k = 0 then Inl (APIError (lit ''rate limit''))
                  else if k = 1 then Inr [Some (lit ''notes'')] else Inr [Some (lit ''Sorry, no report.'')]))
          (replicate 8001 97) fresh_world) = Inr (lit ''Sorry, no report.'')
   \<and> \<not> looks_like_json_object (lit ''Sorry, no report.'')"
  by (simp add: summarize_fst [OF id_encode] id_chunks_8001 looks_like_json_object_def eval_simps)

text \<open>
  C3, as amended. For every transcript and every outcome of the remote calls: when the
  tokenizer raises on the transcript, \<open>summarize_transcript\<close> returns nothing, the
  exception leaves it; otherwise it returns \<open>{}\<close>, an empty instance of the schema, when
  no chunk summary was collected or when the reduce call fails (an exception, no choice,
  no content), and else the stripped content of the reduce response as it is.
\<close>

theorem summarize_returns_reduce_text_or_empty_object:
  "(encode tk T = Inl e \<longrightarrow> fst (summarize_transcript tk cl T w) = Inl e)
   \<and> (encode tk T = Inr tokens \<longrightarrow>
      fst (summarize_transcript tk cl T w) =
        Inr (if succeeded_summaries cl (length (requests w)) (chunk_loop tk tokens []) = []
             then lit ''{}''
             else case chat_completions_create cl
                         (length (requests w) + length (chunk_loop tk tokens []))
                         (reduce_prompt (str_join (lit ''\<newline>\<newline>---\<newline>\<newline>'')
                            (succeeded_summaries cl (length (requests w)) (chunk_loop tk tokens []))))
                         True of
                    Inl e \<Rightarrow> lit ''{}''
                  | Inr [] \<Rightarrow> lit ''{}''
                  | Inr (None # others) \<Rightarrow> lit ''{}''
                  | Inr (Some content # others) \<Rightarrow> strip content))
   \<and> looks_like_json_object (lit ''{}'')"
proof -
  have a: "fst (summarize_transcript tk cl T w) = Inl e" if "encode tk T = Inl e"
    by (simp add: summarize_raises [OF that])
  have b: "looks_like_json_object (lit ''{}'')"
    by (simp add: looks_like_json_object_def strip_def py_isspace_def lit_def)
  have c: "fst (summarize_transcript tk cl T w) =
        Inr (if succeeded_summaries cl (length (requests w)) (chunk_loop tk tokens []) = []
             then lit ''{}''
             else case chat_completions_create cl
                         (length (requests w) + length (chunk_loop tk tokens []))
                         (reduce_prompt (str_join (lit ''\<newline>\<newline>---\<newline>\<newline>'')
                            (succeeded_summaries cl (length (requests w)) (chunk_loop tk tokens []))))
                         True of
                    Inl e \<Rightarrow> lit ''{}''
                  | Inr [] \<Rightarrow> lit ''{}''
                  | Inr (None # others) \<Rightarrow> lit ''{}''
                  | Inr (Some content # others) \<Rightarrow> strip content)"
    if "encode tk T = Inr tokens"
    by (simp add: summarize_fst [OF that] Let_def completion_text_def
        split: sum.splits list.splits option.splits)
  from a b c show ?thesis by blast
qed

theorem summarize_returns_reduce_text_or_empty_object_witness:
  \<open>fst (summarize_transcript id_tokenizer
          (scripted_client (Inr [])
             (\<lambda>k. if k = 0 then Inr [Some (lit ''notes'')]
                  else Inr [Some (lit '' {"summary": "ok"} '')]))
          (lit ''hi'') fresh_world) = Inr (lit ''{"summary": "ok"}'')
   \<and> fst (summarize_transcript id_tokenizer
          (scripted_client (Inr [])
             (\<lambda>k. if k = 0 then Inr [Some (lit ''notes'')] else Inl (APIError (lit ''timeout''))))
          (lit ''hi'') fresh_world) = Inr (lit ''{}'')
   \<and> encode guarded_tokenizer (lit ''so <|endoftext|> then'')
       = Inl (OtherException (lit ''disallowed special token''))
   \<and> fst (summarize_transcript guarded_tokenizer (scripted_client (Inr []) (\<lambda>k. Inr []))
          (lit ''so <|endoftext|> then'') fresh_world)
       = Inl (OtherException (lit ''disallowed special token''))\<close>
proof -
  have g: "encode guarded_tokenizer (lit ''so <|endoftext|> then'')
       = Inl (OtherException (lit ''disallowed special token''))"
    by (simp add: guarded_tokenizer_def lit_def)
  show ?thesis
    using summarize_returns_reduce_text_or_empty_object [where tk = id_tokenizer
        and cl = \<open>scripted_client (Inr [])
             (\<lambda>k. if k = 0 then Inr [Some (lit ''notes'')]
                  else Inr [Some (lit '' {"summary": "ok"} '')])\<close>
        and T = "lit ''hi''" and w = fresh_world and tokens = "lit ''hi''"]
      summarize_returns_reduce_text_or_empty_object [where tk = id_tokenizer
        and cl = "scripted_client (Inr [])
             (\<lambda>k. if k = 0 then Inr [Some (lit ''notes'')] else Inl (APIError (lit ''timeout'')))"
        and T = "lit ''hi''" and w = fresh_world and tokens = "lit ''hi''"]
      summarize_returns_reduce_text_or_empty_object [where tk = guarded_tokenizer
        and cl = "scripted_client (Inr []) (\<lambda>k. Inr [])"
        and T = "lit ''so <|endoftext|> then''" and w = fresh_world
        and e = "OtherException (lit ''disallowed special token'')"]
      g
    unfolding id_encode id_chunks_hi
    by (simp add: eval_simps)
qed

text \<open>
  As first stated the claim promises a serialized report for every transcript and every
  outcome. When the reduce response is blank the returned string is empty, which no JSON
  reader accepts; and when the transcript spells a special token, the tokenizer raises at
  line 103, outside any \<open>try\<close>, and no string is returned at all.
\<close>

theorem summarize_raw_text_counterexample:
  "fst (summarize_transcript id_tokenizer
          (scripted_client (Inr [])
             (\<lambda>k. if k = 0 then Inr [Some (lit ''notes'')] else Inr [Some (lit ''  '')]))
          (lit ''hi'') fresh_world) = Inr []
   \<and> \<not> looks_like_json_object []
   \<and> fst (summarize_transcript guarded_tokenizer (scripted_client (Inr []) (\<lambda>k. Inr []))
          (lit ''so <|endoftext|> then'') fresh_world)
       = Inl (OtherException (lit ''disallowed special token''))"
proof -
  have g: "encode guarded_tokenizer (lit ''so <|endoftext|> then'')
       = Inl (OtherException (lit ''disallowed special token''))"
    by (simp add: guarded_tokenizer_def lit_def)
  have a: "fst (summarize_transcript id_tokenizer
          (scripted_client (Inr [])
             (\<lambda>k. if k = 0 then Inr [Some (lit ''notes'')] else Inr [Some (lit ''  '')]))
          (lit ''hi'') fresh_world) = Inr []"
    by (simp add: summarize_fst [OF id_encode] id_chunks_hi Let_def fresh_world_def
        scripted_client_def completion_text_def)
      (simp add: strip_def py_isspace_def lit_def)
  have b: "\<not> looks_like_json_object []"
    by (simp add: looks_like_json_object_def strip_def)
  show ?thesis
    using a b by (simp add: summarize_raises [OF g])
qed

text \<open>
  C4, as amended. For a summarize invocation whose transcription call returns a
  transcript: when the transcript is empty, no block is emitted and the status is 0;
  when the tokenizer raises on it, the exception leaves \<open>main\<close>, the status is 1 and no
  marker is written; otherwise the status is 0 and standard output is what was there
  before, then diagnostic text holding none of the three markers, then exactly
  \<open>TRANSCRIPT:<text>\n\n\<close> followed by \<open>SUMMARY_JSON_START:\n<json>\nSUMMARY_JSON_END\n\n\<close>
  (\<open>print\<close> ends each block with a newline of its own), with nothing between the two
  blocks or after them; the transcript and the JSON text are written as they are, and
  when neither of them holds a marker, each of the three markers occurs exactly once in
  what the run wrote.
\<close>

theorem summarize_run_emits_marker_blocks:
  assumes "args = [lit ''summarize'', filename]"
    and "api_key = Some k" and "k \<noteq> []"
    and "transcriptions_create cl filename = Inr transcript"
  shows
   "(transcript = [] \<longrightarrow>
       fst (main tk cl ffmpeg_run platform prog args api_key w) = Inr 0
       \<and> stdout (snd (main tk cl ffmpeg_run platform prog args api_key w)) =
           stdout w @ lit ''Uploading audio for transcription via API... This may take a moment.\<newline>Transcription successful.\<newline>''
       \<and> \<not> has_marker (lit ''Uploading audio for transcription via API... This may take a moment.\<newline>Transcription successful.\<newline>''))
    \<and> (transcript \<noteq> [] \<and> encode tk transcript = Inl e \<longrightarrow>
       fst (main tk cl ffmpeg_run platform prog args api_key w) = Inl e
       \<and> exit_status (fst (main tk cl ffmpeg_run platform prog args api_key w)) = 1
       \<and> take (length (stdout w)) (stdout (snd (main tk cl ffmpeg_run platform prog args api_key w)))
           = stdout w
       \<and> \<not> has_marker (drop (length (stdout w))
           (stdout (snd (main tk cl ffmpeg_run platform prog args api_key w)))))
    \<and> (transcript \<noteq> [] \<and> encode tk transcript = Inr tokens \<longrightarrow>
       (\<exists>json. fst (summarize_transcript tk cl transcript
                  (snd (transcribe_audio_with_api cl filename w))) = Inr json))
    \<and> (transcript \<noteq> []
        \<and> fst (summarize_transcript tk cl transcript (snd (transcribe_audio_with_api cl filename w)))
            = Inr json \<longrightarrow>
       fst (main tk cl ffmpeg_run platform prog args api_key w) = Inr 0
       \<and> exit_status (fst (main tk cl ffmpeg_run platform prog args api_key w)) = 0
       \<and> stdout (snd (main tk cl ffmpeg_run platform prog args api_key w)) =
           stdout (snd (summarize_transcript tk cl transcript
              (snd (transcribe_audio_with_api cl filename w))))
           @ marker_blocks transcript json
       \<and> take (length (stdout w))
           (stdout (snd (summarize_transcript tk cl transcript
              (snd (transcribe_audio_with_api cl filename w))))) = stdout w
       \<and> \<not> has_marker (drop (length (stdout w))
           (stdout (snd (summarize_transcript tk cl transcript
              (snd (transcribe_audio_with_api cl filename w))))))
       \<and> stderr (snd (main tk cl ffmpeg_run platform prog args api_key w)) =
           stderr (snd (summarize_transcript tk cl transcript
              (snd (transcribe_audio_with_api cl filename w))))
       \<and> (\<not> has_marker transcript \<and> \<not> has_marker json \<longrightarrow>
            count_str (drop (length (stdout w))
               (stdout (snd (main tk cl ffmpeg_run platform prog args api_key w))))
               (lit ''TRANSCRIPT:'') = 1
            \<and> count_str (drop (length (stdout w))
               (stdout (snd (main tk cl ffmpeg_run platform prog args api_key w))))
               (lit ''SUMMARY_JSON_START:'') = 1
            \<and> count_str (drop (length (stdout w))
               (stdout (snd (main tk cl ffmpeg_run platform prog args api_key w))))
               (lit ''SUMMARY_JSON_END'') = 1))"
proof -
  let ?m = "main tk cl ffmpeg_run platform prog args api_key w"
  let ?w1 = "snd (transcribe_audio_with_api cl filename w)"
  let ?s = "summarize_transcript tk cl transcript ?w1"
  have t: "fst (transcribe_audio_with_api cl filename w) = Some transcript"
    by (simp add: transcribe_ok [OF assms(4)])
  have d: "diag_only w (snd ?s)"
    by (rule diag_only_trans [OF transcribe_diag summarize_diag])
  have p1: "fst ?m = Inr 0
       \<and> stdout (snd ?m) =
           stdout w @ lit ''Uploading audio for transcription via API... This may take a moment.\<newline>Transcription successful.\<newline>''
       \<and> \<not> has_marker (lit ''Uploading audio for transcription via API... This may take a moment.\<newline>Transcription successful.\<newline>'')"
    if e: "transcript = []"
  proof -
    have nm: "\<not> has_marker (lit ''Uploading audio for transcription via API... This may take a moment.\<newline>Transcription successful.\<newline>'')"
      by (rule no_marker) (simp_all add: lit_def)
    have "?m = (Inr 0, ?w1)"
      unfolding assms(1) assms(2)
      by (rule main_empty_transcript [OF assms(3)]) (simp add: t e)
    then show ?thesis
      using nm by (simp add: transcribe_ok [OF assms(4)] print_fields lit_def)
  qed
  have p2: "fst ?m = Inl e \<and> exit_status (fst ?m) = 1
       \<and> take (length (stdout w)) (stdout (snd ?m)) = stdout w
       \<and> \<not> has_marker (drop (length (stdout w)) (stdout (snd ?m)))"
    if ne: "transcript \<noteq> []" and r: "encode tk transcript = Inl e"
  proof -
    have "fst ?s = Inl e" by (simp add: summarize_raises [OF r])
    then have "?m = (Inl e, snd ?s)"
      unfolding assms(1) assms(2)
      by (rule main_uncaught [OF assms(3) t ne])
    then show ?thesis
      using diag_only_no_marker [OF d] by (simp add: exit_status_def)
  qed
  have p3: "\<exists>json. fst ?s = Inr json" if "encode tk transcript = Inr tokens"
    using that by (rule summarize_returns)
  have p4: "fst ?m = Inr 0 \<and> exit_status (fst ?m) = 0
       \<and> stdout (snd ?m) = stdout (snd ?s) @ marker_blocks transcript json
       \<and> take (length (stdout w)) (stdout (snd ?s)) = stdout w
       \<and> \<not> has_marker (drop (length (stdout w)) (stdout (snd ?s)))
       \<and> stderr (snd ?m) = stderr (snd ?s)
       \<and> (\<not> has_marker transcript \<and> \<not> has_marker json \<longrightarrow>
            count_str (drop (length (stdout w)) (stdout (snd ?m))) (lit ''TRANSCRIPT:'') = 1
            \<and> count_str (drop (length (stdout w)) (stdout (snd ?m))) (lit ''SUMMARY_JSON_START:'') = 1
            \<and> count_str (drop (length (stdout w)) (stdout (snd ?m))) (lit ''SUMMARY_JSON_END'') = 1)"
    if ne: "transcript \<noteq> []" and r: "fst ?s = Inr json"
  proof -
    have m: "?m = (Inr 0,
            print (lit ''SUMMARY_JSON_START:\<newline>'' @ json @ lit ''\<newline>SUMMARY_JSON_END\<newline>'')
              (print (lit ''TRANSCRIPT:'' @ transcript @ lit ''\<newline>'') (snd ?s)))"
      unfolding assms(1) assms(2)
      by (rule main_blocks [OF assms(3) t ne r])
    have out: "stdout (snd ?m) = stdout (snd ?s) @ marker_blocks transcript json"
      unfolding m by (simp add: blocks_printed)
    have err: "stderr (snd ?m) = stderr (snd ?s)"
      unfolding m by (simp add: print_fields)
    from d obtain D where D: "stdout (snd ?s) = stdout w @ D" "82 \<notin> set D" "95 \<notin> set D"
      by (auto simp: diag_only_def)
    have dr: "drop (length (stdout w)) (stdout (snd ?m)) = D @ marker_blocks transcript json"
      by (simp add: out D(1))
    have cnt: "count_str (drop (length (stdout w)) (stdout (snd ?m))) (lit ''TRANSCRIPT:'') = 1
            \<and> count_str (drop (length (stdout w)) (stdout (snd ?m))) (lit ''SUMMARY_JSON_START:'') = 1
            \<and> count_str (drop (length (stdout w)) (stdout (snd ?m))) (lit ''SUMMARY_JSON_END'') = 1"
      if "\<not> has_marker transcript" and "\<not> has_marker json"
      unfolding dr by (rule blocks_count [OF D(2) D(3) that])
    have f: "fst ?m = Inr 0" by (simp add: m)
    show ?thesis
      using diag_only_no_marker [OF d] cnt out err f by (simp add: exit_status_def)
  qed
  from p1 p2 p3 p4 show ?thesis by blast
qed

theorem summarize_run_emits_marker_blocks_witness:
  "main id_tokenizer
     (scripted_client (Inr (lit ''hi''))
        (\<lambda>k. if k = 0 then Inr [Some (lit ''notes'')] else Inr [Some (lit ''{}'')]))
     (\<lambda>device format file. Completed) (lit ''linux'') (lit ''cli.py'')
     [lit ''summarize'', lit ''a.mp3''] (Some (lit ''sk'')) fresh_world
   = (Inr 0,
      \<lparr>stdout = lit ''Uploading audio for transcription via API... This may take a moment.\<newline>Transcription successful.\<newline>Starting summarization process...\<newline>Splitting transcript into chunks...\<newline>Summarizing 1 chunk(s) of text...\<newline>  - Processing chunk 1/1...\<newline>Generating final consolidated summary...\<newline>Summarization complete.\<newline>TRANSCRIPT:hi\<newline>\<newline>SUMMARY_JSON_START:\<newline>{}\<newline>SUMMARY_JSON_END\<newline>\<newline>'',
       stderr = [],
       requests =
         [(map_prompt (lit ''hi''), False),
          (reduce_prompt (lit ''notes''), True)],
       stop_ticker_flag = False, thread_log = []\<rparr>)
   \<and> count_str (stdout (snd (main id_tokenizer
     (scripted_client (Inr (lit ''hi''))
        (\<lambda>k. if k = 0 then Inr [Some (lit ''notes'')] else Inr [Some (lit ''{}'')]))
     (\<lambda>device format file. Completed) (lit ''linux'') (lit ''cli.py'')
     [lit ''summarize'', lit ''a.mp3''] (Some (lit ''sk'')) fresh_world))) (lit ''TRANSCRIPT:'') = 1
   \<and> count_str (stdout (snd (main id_tokenizer
     (scripted_client (Inr (lit ''hi''))
        (\<lambda>k. if k = 0 then Inr [Some (lit ''notes'')] else Inr [Some (lit ''{}'')]))
     (\<lambda>device format file. Completed) (lit ''linux'') (lit ''cli.py'')
     [lit ''summarize'', lit ''a.mp3''] (Some (lit ''sk'')) fresh_world))) (lit ''SUMMARY_JSON_START:'') = 1
   \<and> count_str (stdout (snd (main id_tokenizer
     (scripted_client (Inr (lit ''hi''))
        (\<lambda>k. if k = 0 then Inr [Some (lit ''notes'')] else Inr [Some (lit ''{}'')]))
     (\<lambda>device format file. Completed) (lit ''linux'') (lit ''cli.py'')
     [lit ''summarize'', lit ''a.mp3''] (Some (lit ''sk'')) fresh_world))) (lit ''SUMMARY_JSON_END'') = 1"
proof -
  let ?cl = "scripted_client (Inr (lit ''hi''))
        (\<lambda>k. if k = 0 then Inr [Some (lit ''notes'')] else Inr [Some (lit ''{}'')])"
  let ?w1 = "snd (transcribe_audio_with_api ?cl (lit ''a.mp3'') fresh_world)"
  let ?m = "main id_tokenizer ?cl (\<lambda>device format file. Completed) (lit ''linux'') (lit ''cli.py'')
      [lit ''summarize'', lit ''a.mp3''] (Some (lit ''sk'')) fresh_world"
  have a: "transcriptions_create ?cl (lit ''a.mp3'') = Inr (lit ''hi'')"
    by (simp add: scripted_client_def)
  have b: "lit ''sk'' \<noteq> []" "lit ''hi'' \<noteq> []" by (simp_all add: lit_def)
  have t: "fst (transcribe_audio_with_api ?cl (lit ''a.mp3'') fresh_world) = Some (lit ''hi'')"
    by (simp add: transcribe_ok [OF a])
  have w1: "?w1 = \<lparr>stdout = lit ''Uploading audio for transcription via API... This may take a moment.\<newline>Transcription successful.\<newline>'',
       stderr = [], requests = [], stop_ticker_flag = False, thread_log = []\<rparr>"
    unfolding transcribe_ok [OF a] by (simp add: print_def fresh_world_def lit_def)
  have s: "summarize_transcript id_tokenizer ?cl (lit ''hi'') ?w1 =
     (Inr (lit ''{}''),
      \<lparr>stdout = lit ''Uploading audio for transcription via API... This may take a moment.\<newline>Transcription successful.\<newline>Starting summarization process...\<newline>Splitting transcript into chunks...\<newline>Summarizing 1 chunk(s) of text...\<newline>  - Processing chunk 1/1...\<newline>Generating final consolidated summary...\<newline>Summarization complete.\<newline>'',
       stderr = [],
       requests = [(map_prompt (lit ''hi''), False), (reduce_prompt (lit ''notes''), True)],
       stop_ticker_flag = False, thread_log = []\<rparr>)"
    unfolding w1
    by (simp add: summarize_transcript_def id_encode id_chunks_hi Let_def get_llm_response_def
        scripted_client_def completion_text_def print_def str_nat_digit)
      (simp add: strip_def py_isspace_def lit_def)
  have r: "fst (summarize_transcript id_tokenizer ?cl (lit ''hi'') ?w1) = Inr (lit ''{}'')"
    by (simp add: s)
  have m: "?m = (fst ?m,
      snd (summarize_transcript id_tokenizer ?cl (lit ''hi'') ?w1)\<lparr>stdout := stdout (snd ?m)\<rparr>)"
    unfolding main_blocks [OF b(1) t b(2) r] by (simp add: print_def)
  have nm: "\<not> has_marker (lit ''hi'')" "\<not> has_marker (lit ''{}'')"
    by (simp_all add: has_marker_def lit_def)
  note th = summarize_run_emits_marker_blocks [OF refl refl b(1) a, where tk = id_tokenizer
        and ffmpeg_run = "\<lambda>device format file. Completed" and platform = "lit ''linux''"
        and prog = "lit ''cli.py''" and w = fresh_world and json = "lit ''{}''"]
  have st: "stdout fresh_world = []" by (simp add: fresh_world_def)
  show ?thesis
    apply (subst m)
    using th b(2) r nm
    by (simp add: s st) (simp add: marker_blocks_def lit_def)
qed

text \<open>
  As first stated the claim has exactly one block of each kind in every run whose
  transcription succeeded. When the transcript that comes back is empty, the guard
  \<open>if transcript:\<close> skips the emission and standard output holds no marker. When the
  transcript itself reads \<open>TRANSCRIPT:\<close>, it is written as it is and the marker stands
  twice. When the transcript spells a special token, the tokenizer raises, the process
  ends with status 1 and standard output holds no marker.
\<close>

theorem marker_blocks_counterexample:
  "\<not> has_marker (stdout (snd (main id_tokenizer
        (scripted_client (Inr []) (\<lambda>k. Inr [Some (lit ''notes'')]))
        (\<lambda>device format file. Completed) (lit ''linux'') (lit ''cli.py'')
        [lit ''summarize'', lit ''a.mp3''] (Some (lit ''sk'')) fresh_world)))
   \<and> count_str (stdout (snd (main id_tokenizer
        (scripted_client (Inr (lit ''TRANSCRIPT:'')) (\<lambda>k. Inr [Some (lit ''{}'')]))
        (\<lambda>device format file. Completed) (lit ''linux'') (lit ''cli.py'')
        [lit ''summarize'', lit ''a.mp3''] (Some (lit ''sk'')) fresh_world))) (lit ''TRANSCRIPT:'') = 2
   \<and> exit_status (fst (main guarded_tokenizer
        (scripted_client (Inr (lit ''so <|endoftext|> then'')) (\<lambda>k. Inr [Some (lit ''{}'')]))
        (\<lambda>device format file. Completed) (lit ''linux'') (lit ''cli.py'')
        [lit ''summarize'', lit ''a.mp3''] (Some (lit ''sk'')) fresh_world)) = 1
   \<and> \<not> has_marker (stdout (snd (main guarded_tokenizer
        (scripted_client (Inr (lit ''so <|endoftext|> then'')) (\<lambda>k. Inr [Some (lit ''{}'')]))
        (\<lambda>device format file. Completed) (lit ''linux'') (lit ''cli.py'')
        [lit ''summarize'', lit ''a.mp3''] (Some (lit ''sk'')) fresh_world)))"
proof -
  have k: "lit ''sk'' \<noteq> []" by (simp add: lit_def)
  have st: "stdout fresh_world = []" by (simp add: fresh_world_def)
  have first: "\<not> has_marker (stdout (snd (main id_tokenizer
        (scripted_client (Inr []) (\<lambda>k. Inr [Some (lit ''notes'')]))
        (\<lambda>device format file. Completed) (lit ''linux'') (lit ''cli.py'')
        [lit ''summarize'', lit ''a.mp3''] (Some (lit ''sk'')) fresh_world)))"
  proof -
    let ?cl = "scripted_client (Inr []) (\<lambda>k. Inr [Some (lit ''notes'')])"
    have a: "transcriptions_create ?cl (lit ''a.mp3'') = Inr []"
      by (simp add: scripted_client_def)
    have t: "fst (transcribe_audio_with_api ?cl (lit ''a.mp3'') fresh_world) = Some []"
      by (simp add: transcribe_ok [OF a])
    show ?thesis
      unfolding main_empty_transcript [OF k t]
      using diag_only_no_marker [OF transcribe_diag [where w = fresh_world and cl = ?cl
            and filename = "lit ''a.mp3''"]]
      by (simp add: st)
  qed
  have second: "count_str (stdout (snd (main id_tokenizer
        (scripted_client (Inr (lit ''TRANSCRIPT:'')) (\<lambda>k. Inr [Some (lit ''{}'')]))
        (\<lambda>device format file. Completed) (lit ''linux'') (lit ''cli.py'')
        [lit ''summarize'', lit ''a.mp3''] (Some (lit ''sk'')) fresh_world))) (lit ''TRANSCRIPT:'') = 2"
  proof -
    let ?cl = "scripted_client (Inr (lit ''TRANSCRIPT:'')) (\<lambda>k. Inr [Some (lit ''{}'')])"
    let ?w1 = "snd (transcribe_audio_with_api ?cl (lit ''a.mp3'') fresh_world)"
    let ?s = "summarize_transcript id_tokenizer ?cl (lit ''TRANSCRIPT:'') ?w1"
    have a: "transcriptions_create ?cl (lit ''a.mp3'') = Inr (lit ''TRANSCRIPT:'')"
      by (simp add: scripted_client_def)
    have t: "fst (transcribe_audio_with_api ?cl (lit ''a.mp3'') fresh_world) = Some (lit ''TRANSCRIPT:'')"
      by (simp add: transcribe_ok [OF a])
    have ne: "lit ''TRANSCRIPT:'' \<noteq> []" by (simp add: lit_def)
    have ch: "chunk_loop id_tokenizer (lit ''TRANSCRIPT:'') [] = [lit ''TRANSCRIPT:'']"
      by (rule id_chunks_short) (simp_all add: lit_def)
    have r: "fst ?s = Inr (lit ''{}'')"
      by (simp add: summarize_fst [OF id_encode] ch Let_def scripted_client_def completion_text_def)
        (simp add: strip_def py_isspace_def lit_def)
    have d: "diag_only fresh_world (snd ?s)"
      by (rule diag_only_trans [OF transcribe_diag summarize_diag])
    then obtain D where D: "stdout (snd ?s) = D" "82 \<notin> set D" "95 \<notin> set D"
      by (auto simp: diag_only_def st)
    have out: "stdout (snd (main id_tokenizer ?cl (\<lambda>device format file. Completed) (lit ''linux'')
        (lit ''cli.py'') [lit ''summarize'', lit ''a.mp3''] (Some (lit ''sk'')) fresh_world))
        = D @ marker_blocks (lit ''TRANSCRIPT:'') (lit ''{}'')"
      unfolding main_blocks [OF k t ne r] by (simp add: blocks_printed D(1))
    have m1: "lit ''TRANSCRIPT:'' = lit ''T'' @ 82 # lit ''ANSCRIPT:''" by (simp add: lit_def)
    have "starts_in D (marker_blocks (lit ''TRANSCRIPT:'') (lit ''{}''))
        (lit ''T'' @ 82 # lit ''ANSCRIPT:'') = 0"
      by (rule starts_in_free [OF D(2)]) (simp add: marker_blocks_def lit_def)
    then have z: "starts_in D (marker_blocks (lit ''TRANSCRIPT:'') (lit ''{}'')) (lit ''TRANSCRIPT:'') = 0"
      by (simp only: m1 [symmetric])
    have c: "count_str (marker_blocks (lit ''TRANSCRIPT:'') (lit ''{}'')) (lit ''TRANSCRIPT:'') = 2"
      by (simp add: marker_blocks_def lit_def)
    show ?thesis
      unfolding out by (simp add: count_str_append z c)
  qed
  have third: "exit_status (fst (main guarded_tokenizer
        (scripted_client (Inr (lit ''so <|endoftext|> then'')) (\<lambda>k. Inr [Some (lit ''{}'')]))
        (\<lambda>device format file. Completed) (lit ''linux'') (lit ''cli.py'')
        [lit ''summarize'', lit ''a.mp3''] (Some (lit ''sk'')) fresh_world)) = 1
   \<and> \<not> has_marker (stdout (snd (main guarded_tokenizer
        (scripted_client (Inr (lit ''so <|endoftext|> then'')) (\<lambda>k. Inr [Some (lit ''{}'')]))
        (\<lambda>device format file. Completed) (lit ''linux'') (lit ''cli.py'')
        [lit ''summarize'', lit ''a.mp3''] (Some (lit ''sk'')) fresh_world)))"
  proof -
    let ?cl = "scripted_client (Inr (lit ''so <|endoftext|> then'')) (\<lambda>k. Inr [Some (lit ''{}'')])"
    let ?w1 = "snd (transcribe_audio_with_api ?cl (lit ''a.mp3'') fresh_world)"
    let ?s = "summarize_transcript guarded_tokenizer ?cl (lit ''so <|endoftext|> then'') ?w1"
    have a: "transcriptions_create ?cl (lit ''a.mp3'') = Inr (lit ''so <|endoftext|> then'')"
      by (simp add: scripted_client_def)
    have t: "fst (transcribe_audio_with_api ?cl (lit ''a.mp3'') fresh_world)
        = Some (lit ''so <|endoftext|> then'')"
      by (simp add: transcribe_ok [OF a])
    have ne: "lit ''so <|endoftext|> then'' \<noteq> []" by (simp add: lit_def)
    have g: "encode guarded_tokenizer (lit ''so <|endoftext|> then'')
       = Inl (OtherException (lit ''disallowed special token''))"
      by (simp add: guarded_tokenizer_def lit_def)
    have r: "fst ?s = Inl (OtherException (lit ''disallowed special token''))"
      by (simp add: summarize_raises [OF g])
    have d: "diag_only fresh_world (snd ?s)"
      by (rule diag_only_trans [OF transcribe_diag summarize_diag])
    show ?thesis
      unfolding main_uncaught [OF k t ne r]
      using diag_only_no_marker [OF d] by (simp add: st exit_status_def)
  qed
  from first second third show ?thesis by blast
qed

text \<open>
  C5, as amended. For every summarize invocation whose transcription call fails, \<open>main\<close>
  returns normally (exit status 0), standard output gains only the upload notice, which
  holds no marker, the error stream gains the diagnostic line of the failure, and no
  chat request is issued.
\<close>

theorem failed_transcription_ends_quietly:
  assumes "args = [lit ''summarize'', filename]"
    and "api_key = Some k" and "k \<noteq> []"
    and "transcriptions_create cl filename = Inl e"
  shows "fst (main tk cl ffmpeg_run platform prog args api_key w) = Inr 0
    \<and> exit_status (fst (main tk cl ffmpeg_run platform prog args api_key w)) = 0
    \<and> stdout (snd (main tk cl ffmpeg_run platform prog args api_key w)) =
        stdout w @ lit ''Uploading audio for transcription via API... This may take a moment.\<newline>''
    \<and> \<not> has_marker (lit ''Uploading audio for transcription via API... This may take a moment.\<newline>'')
    \<and> stderr (snd (main tk cl ffmpeg_run platform prog args api_key w)) =
        stderr w @
        (case e of
           APIError m \<Rightarrow> lit ''OpenAI API Error during transcription: '' @ m @ lit ''\<newline>''
         | OtherException m \<Rightarrow>
             lit ''An unexpected error occurred during transcription: '' @ m @ lit ''\<newline>'')
    \<and> requests (snd (main tk cl ffmpeg_run platform prog args api_key w)) = requests w"
proof -
  have nm: "\<not> has_marker (lit ''Uploading audio for transcription via API... This may take a moment.\<newline>'')"
    by (rule no_marker) (simp_all add: lit_def)
  have t: "fst (transcribe_audio_with_api cl filename w) = None"
    by (simp add: transcribe_failed [OF assms(4)])
  have "main tk cl ffmpeg_run platform prog args api_key w =
      (Inr 0, snd (transcribe_audio_with_api cl filename w))"
    unfolding assms(1) assms(2) by (rule main_no_transcript [OF assms(3) t])
  then show ?thesis
    using nm
    by (simp add: transcribe_failed [OF assms(4)] print_fields stderr_write_fields lit_def
        exit_status_def)
qed

theorem failed_transcription_ends_quietly_witness:
  "main id_tokenizer (scripted_client (Inl (APIError (lit ''connection refused''))) (\<lambda>k. Inr []))
     (\<lambda>device format file. Completed) (lit ''linux'') (lit ''cli.py'')
     [lit ''summarize'', lit ''a.mp3''] (Some (lit ''sk'')) fresh_world
   = (Inr 0,
      \<lparr>stdout = lit ''Uploading audio for transcription via API... This may take a moment.\<newline>'',
       stderr = lit ''OpenAI API Error during transcription: connection refused\<newline>'',
       requests = [], stop_ticker_flag = False, thread_log = []\<rparr>)"
proof -
  let ?cl = "scripted_client (Inl (APIError (lit ''connection refused''))) (\<lambda>k. Inr [])"
  let ?m = "main id_tokenizer ?cl (\<lambda>device format file. Completed) (lit ''linux'') (lit ''cli.py'')
      [lit ''summarize'', lit ''a.mp3''] (Some (lit ''sk'')) fresh_world"
  have a: "transcriptions_create ?cl (lit ''a.mp3'') = Inl (APIError (lit ''connection refused''))"
    by (simp add: scripted_client_def)
  have k: "lit ''sk'' \<noteq> []" by (simp add: lit_def)
  have t: "fst (transcribe_audio_with_api ?cl (lit ''a.mp3'') fresh_world) = None"
    by (simp add: transcribe_failed [OF a])
  have fl: "stop_ticker_flag (snd ?m) = False \<and> thread_log (snd ?m) = []"
    unfolding main_no_transcript [OF k t]
    by (simp add: transcribe_failed [OF a] print_fields stderr_write_fields fresh_world_def)
  have "?m = (fst ?m, \<lparr>stdout = stdout (snd ?m), stderr = stderr (snd ?m),
      requests = requests (snd ?m), stop_ticker_flag = stop_ticker_flag (snd ?m),
      thread_log = thread_log (snd ?m)\<rparr>)"
    by (simp add: prod_eq_iff)
  then show ?thesis
    using failed_transcription_ends_quietly [OF refl refl k a, where tk = id_tokenizer
        and ffmpeg_run = "\<lambda>device format file. Completed" and platform = "lit ''linux''"
        and prog = "lit ''cli.py''" and w = fresh_world] fl
    by (simp add: fresh_world_def lit_def)
qed

text \<open>
  As first stated the claim has the session exit with a non-zero status. \<open>main\<close> calls
  \<open>sys.exit(1)\<close> only for a usage error, a missing key or an unknown action; after a
  failed transcription it returns, and the status is 0.
\<close>

theorem failed_transcription_exit_status_counterexample:
  "transcriptions_create (scripted_client (Inl (OtherException (lit ''no such file''))) (\<lambda>k. Inr []))
     (lit ''missing.mp3'') = Inl (OtherException (lit ''no such file''))
   \<and> exit_status (fst (main id_tokenizer
        (scripted_client (Inl (OtherException (lit ''no such file''))) (\<lambda>k. Inr []))
        (\<lambda>device format file. Completed) (lit ''linux'') (lit ''cli.py'')
        [lit ''summarize'', lit ''missing.mp3''] (Some (lit ''sk'')) fresh_world)) = 0"
proof -
  let ?cl = "scripted_client (Inl (OtherException (lit ''no such file''))) (\<lambda>k. Inr [])"
  have k: "lit ''sk'' \<noteq> []" by (simp add: lit_def)
  have a: "transcriptions_create ?cl (lit ''missing.mp3'') = Inl (OtherException (lit ''no such file''))"
    by (simp add: scripted_client_def)
  have t: "fst (transcribe_audio_with_api ?cl (lit ''missing.mp3'') fresh_world) = None"
    by (simp add: transcribe_failed [OF a])
  show ?thesis
    unfolding main_no_transcript [OF k t] using a by (simp add: exit_status_def)
qed

text \<open>
  C6. Where the tokenizer encodes the empty string to no tokens, chunking it yields no
  chunk and \<open>summarize_transcript\<close> returns \<open>{}\<close> without any request. For every
  transcript that the tokenizer encodes, when the map step collects no summary (its
  result is \<open>succeeded_summaries\<close>), \<open>summarize_transcript\<close> returns \<open>{}\<close>, issues no
  reduce request, and the error stream ends with the diagnostic line. In these cases the
  function returns a value; no exception leaves it.
\<close>

theorem no_summaries_gives_empty_report:
  "(encode tk [] = Inr [] \<longrightarrow>
      chunk_loop tk [] [] = []
      \<and> fst (summarize_transcript tk cl [] w) = Inr (lit ''{}'')
      \<and> requests (snd (summarize_transcript tk cl [] w)) = requests w
      \<and> suffix (lit ''Could not generate summaries for any transcript chunks.\<newline>'')
           (stderr (snd (summarize_transcript tk cl [] w))))
   \<and> fst (map_loop cl n i chunks [] w') = succeeded_summaries cl (length (requests w')) chunks
   \<and> (encode tk T = Inr tokens
       \<and> succeeded_summaries cl (length (requests w)) (chunk_loop tk tokens []) = [] \<longrightarrow>
      fst (summarize_transcript tk cl T w) = Inr (lit ''{}'')
      \<and> requests (snd (summarize_transcript tk cl T w)) =
          requests w @ map (\<lambda>c. (map_prompt c, False)) (chunk_loop tk tokens [])
      \<and> suffix (lit ''Could not generate summaries for any transcript chunks.\<newline>'')
           (stderr (snd (summarize_transcript tk cl T w))))"
proof -
  have a: "chunk_loop tk [] [] = []
      \<and> fst (summarize_transcript tk cl [] w) = Inr (lit ''{}'')
      \<and> requests (snd (summarize_transcript tk cl [] w)) = requests w
      \<and> suffix (lit ''Could not generate summaries for any transcript chunks.\<newline>'')
           (stderr (snd (summarize_transcript tk cl [] w)))"
    if e: "encode tk [] = Inr []"
    using summarize_stderr_none [OF e, of cl w]
    by (simp add: summarize_fst [OF e] summarize_requests [OF e] Let_def chunk_loop_Nil)
  have b: "fst (summarize_transcript tk cl T w) = Inr (lit ''{}'')
      \<and> requests (snd (summarize_transcript tk cl T w)) =
          requests w @ map (\<lambda>c. (map_prompt c, False)) (chunk_loop tk tokens [])
      \<and> suffix (lit ''Could not generate summaries for any transcript chunks.\<newline>'')
           (stderr (snd (summarize_transcript tk cl T w)))"
    if e: "encode tk T = Inr tokens"
      and s: "succeeded_summaries cl (length (requests w)) (chunk_loop tk tokens []) = []"
    using summarize_stderr_none [OF e s]
    by (simp add: summarize_fst [OF e] summarize_requests [OF e] Let_def s)
  from a b show ?thesis by (simp add: map_loop_fst)
qed

theorem no_summaries_gives_empty_report_witness:
  "encode id_tokenizer [] = Inr []
   \<and> chunk_loop id_tokenizer [] [] = []
   \<and> fst (summarize_transcript id_tokenizer (scripted_client (Inr []) (\<lambda>k. Inr [])) [] fresh_world)
       = Inr (lit ''{}'')
   \<and> requests (snd (summarize_transcript id_tokenizer (scripted_client (Inr []) (\<lambda>k. Inr [])) []
        fresh_world)) = []
   \<and> stderr (snd (summarize_transcript id_tokenizer (scripted_client (Inr []) (\<lambda>k. Inr [])) []
        fresh_world)) = lit ''Could not generate summaries for any transcript chunks.\<newline>''
   \<and> encode id_tokenizer (lit ''hi'') = Inr (lit ''hi'')
   \<and> succeeded_summaries (scripted_client (Inr []) (\<lambda>k. Inr [])) (length (requests fresh_world))
        (chunk_loop id_tokenizer (lit ''hi'') []) = []
   \<and> fst (summarize_transcript id_tokenizer (scripted_client (Inr []) (\<lambda>k. Inr [])) (lit ''hi'')
        fresh_world) = Inr (lit ''{}'')"
proof -
  have st: "stderr (snd (summarize_transcript id_tokenizer (scripted_client (Inr []) (\<lambda>k. Inr [])) []
        fresh_world)) = lit ''Could not generate summaries for any transcript chunks.\<newline>''"
    by (simp add: summarize_transcript_def id_encode chunk_loop_Nil Let_def print_fields
        stderr_write_fields fresh_world_def)
  have s: "succeeded_summaries (scripted_client (Inr []) (\<lambda>k. Inr [])) (length (requests fresh_world))
        (chunk_loop id_tokenizer (lit ''hi'') []) = []"
    by (simp add: id_chunks_hi scripted_client_def completion_text_def)
  show ?thesis
    using no_summaries_gives_empty_report
      [where tk = id_tokenizer and cl = "scripted_client (Inr []) (\<lambda>k. Inr [])" and w = fresh_world
        and n = 0 and i = 0 and chunks = "[]" and w' = fresh_world and T = "lit ''hi''"
        and tokens = "lit ''hi''"] s st
    by (simp add: id_encode fresh_world_def)
qed

text \<open>
  C7, as amended. For a transcript that encodes to exactly 20000 tokens there are exactly
  three chunks, the decoded slices of 8000, 8000 and 4000 tokens in that order; exactly
  three map requests are issued, one per chunk; and exactly one reduce request follows
  when at least one map call gave a non-empty summary, none otherwise.
\<close>

theorem twenty_thousand_tokens_three_chunks:
  assumes "encode tk T = Inr tokens" and "length tokens = 20000"
  shows "chunk_loop tk tokens [] =
           [decode tk (take 8000 tokens), decode tk (take 8000 (drop 8000 tokens)),
            decode tk (drop 16000 tokens)]
    \<and> map length (token_slices tokens) = [8000, 8000, 4000]
    \<and> requests (snd (summarize_transcript tk cl T w)) =
        requests w @
        [(map_prompt (decode tk (take 8000 tokens)), False),
         (map_prompt (decode tk (take 8000 (drop 8000 tokens))), False),
         (map_prompt (decode tk (drop 16000 tokens)), False)] @
        (if succeeded_summaries cl (length (requests w)) (chunk_loop tk tokens []) = [] then []
         else [(reduce_prompt (str_join (lit ''\<newline>\<newline>---\<newline>\<newline>'')
                  (succeeded_summaries cl (length (requests w)) (chunk_loop tk tokens []))), True)])"
proof -
  have sl: "token_slices tokens =
      [take 8000 tokens, take 8000 (drop 8000 tokens), drop 16000 tokens]"
    using assms(2) by (rule token_slices_20000)
  have ch: "chunk_loop tk tokens [] =
           [decode tk (take 8000 tokens), decode tk (take 8000 (drop 8000 tokens)),
            decode tk (drop 16000 tokens)]"
    by (simp add: chunk_loop_slices sl)
  have len: "map length (token_slices tokens) = [8000, 8000, 4000]"
    using assms(2) by (simp add: sl)
  have rq: "requests (snd (summarize_transcript tk cl T w)) =
        requests w @ map (\<lambda>c. (map_prompt c, False)) (chunk_loop tk tokens []) @
        (if succeeded_summaries cl (length (requests w)) (chunk_loop tk tokens []) = [] then []
         else [(reduce_prompt (str_join (lit ''\<newline>\<newline>---\<newline>\<newline>'')
                  (succeeded_summaries cl (length (requests w)) (chunk_loop tk tokens []))), True)])"
    by (simp add: summarize_requests [OF assms(1)] Let_def)
  have mp: "map (\<lambda>c. (map_prompt c, False)) (chunk_loop tk tokens []) =
        [(map_prompt (decode tk (take 8000 tokens)), False),
         (map_prompt (decode tk (take 8000 (drop 8000 tokens))), False),
         (map_prompt (decode tk (drop 16000 tokens)), False)]"
    by (simp add: ch)
  show ?thesis
    using ch len rq unfolding mp by simp
qed

theorem twenty_thousand_tokens_three_chunks_witness:
  "encode id_tokenizer (replicate 20000 97) = Inr (replicate 20000 97)
   \<and> length (replicate 20000 (97::nat)) = 20000
   \<and> chunk_loop id_tokenizer (replicate 20000 97) []
       = [replicate 8000 97, replicate 8000 97, replicate 4000 97]
   \<and> map length (token_slices (replicate 20000 (97::nat))) = [8000, 8000, 4000]
   \<and> map snd (requests (snd (summarize_transcript id_tokenizer
        (scripted_client (Inr []) (\<lambda>k. Inr [Some (lit ''notes'')])) (replicate 20000 97) fresh_world)))
       = [False, False, False, True]"
proof -
  have l: "length (replicate 20000 (97::nat)) = 20000" by simp
  have s: "succeeded_summaries (scripted_client (Inr []) (\<lambda>k. Inr [Some (lit ''notes'')]))
      (length (requests fresh_world)) (chunk_loop id_tokenizer (replicate 20000 97) []) \<noteq> []"
    by (simp add: id_chunks_20000 eval_simps)
  show ?thesis
    using twenty_thousand_tokens_three_chunks [OF id_encode l,
        of "scripted_client (Inr []) (\<lambda>k. Inr [Some (lit ''notes'')])" fresh_world] s
    by (simp add: id_chunks_20000 id_encode) (simp add: fresh_world_def)
qed

text \<open>
  As first stated the claim counts one reduce call in every such run. When all three map
  calls fail, three requests are issued and none of them is a reduce request.
\<close>

theorem twenty_thousand_tokens_no_reduce_counterexample:
  "encode id_tokenizer (replicate 20000 97) = Inr (replicate 20000 97)
   \<and> length (replicate 20000 (97::nat)) = 20000
   \<and> map snd (requests (snd (summarize_transcript id_tokenizer
        (scripted_client (Inr []) (\<lambda>k. Inl (APIError (lit ''timeout'')))) (replicate 20000 97)
        fresh_world))) = [False, False, False]
   \<and> length (filter snd (requests (snd (summarize_transcript id_tokenizer
        (scripted_client (Inr []) (\<lambda>k. Inl (APIError (lit ''timeout'')))) (replicate 20000 97)
        fresh_world)))) = 0"
  by (simp add: summarize_requests [OF id_encode] id_chunks_20000 id_encode Let_def
      scripted_client_def completion_text_def fresh_world_def)

text \<open>
  C8. Whenever the \<open>try\<close> block of \<open>get_llm_response\<close> raises an exception \<open>e\<close> (the
  remote call raised it, or the response had no choice or no content),
  \<open>get_llm_response\<close> returns \<open>{}\<close> in JSON mode and the empty string in text mode,
  leaves standard output alone and appends one diagnostic line with the text of \<open>e\<close> to
  the error stream. Whenever transcription raises \<open>e\<close>, \<open>transcribe_audio_with_api\<close>
  returns the sentinel and appends its diagnostic line. Both functions return a value in
  every case; the exception is not part of their result.
\<close>

theorem adapters_log_and_return_default:
  "completion_text (Inl e) = Inl e
   \<and> (completion_text (chat_completions_create cl (length (requests w)) prompt is_json) = Inl e \<longrightarrow>
      fst (get_llm_response cl prompt is_json w) = (if is_json then lit ''{}'' else [])
      \<and> stdout (snd (get_llm_response cl prompt is_json w)) = stdout w
      \<and> stderr (snd (get_llm_response cl prompt is_json w)) =
          stderr w @
          (case e of
             APIError m \<Rightarrow> lit ''OpenAI API Error during summarization: '' @ m @ lit ''\<newline>''
           | OtherException m \<Rightarrow>
               lit ''An unexpected error occurred during summarization: '' @ m @ lit ''\<newline>''))
   \<and> (transcriptions_create cl filename = Inl e \<longrightarrow>
      fst (transcribe_audio_with_api cl filename w) = None
      \<and> stderr (snd (transcribe_audio_with_api cl filename w)) =
          stderr w @
          (case e of
             APIError m \<Rightarrow> lit ''OpenAI API Error during transcription: '' @ m @ lit ''\<newline>''
           | OtherException m \<Rightarrow>
               lit ''An unexpected error occurred during transcription: '' @ m @ lit ''\<newline>''))"
  by (cases e)
    (simp_all add: llm_fst llm_stdout llm_stderr transcribe_audio_with_api_def
      Let_def print_fields stderr_write_fields, simp_all add: completion_text_def)

theorem adapters_log_and_return_default_witness:
  "completion_text (chat_completions_create (scripted_client (Inl (OtherException (lit ''no such file'')))
       (\<lambda>k. Inl (APIError (lit ''rate limit'')))) (length (requests fresh_world)) (lit ''p'') True)
     = Inl (APIError (lit ''rate limit''))
   \<and> get_llm_response (scripted_client (Inl (OtherException (lit ''no such file'')))
       (\<lambda>k. Inl (APIError (lit ''rate limit'')))) (lit ''p'') True fresh_world
     = (lit ''{}'',
        \<lparr>stdout = [], stderr = lit ''OpenAI API Error during summarization: rate limit\<newline>'',
         requests = [(lit ''p'', True)], stop_ticker_flag = False, thread_log = []\<rparr>)
   \<and> transcriptions_create (scripted_client (Inl (OtherException (lit ''no such file'')))
       (\<lambda>k. Inl (APIError (lit ''rate limit'')))) (lit ''a.mp3'')
     = Inl (OtherException (lit ''no such file''))
   \<and> fst (transcribe_audio_with_api (scripted_client (Inl (OtherException (lit ''no such file'')))
       (\<lambda>k. Inl (APIError (lit ''rate limit'')))) (lit ''a.mp3'') fresh_world) = None
   \<and> stderr (snd (transcribe_audio_with_api (scripted_client (Inl (OtherException (lit ''no such file'')))
       (\<lambda>k. Inl (APIError (lit ''rate limit'')))) (lit ''a.mp3'') fresh_world))
     = lit ''An unexpected error occurred during transcription: no such file\<newline>''"
proof -
  let ?cl = "scripted_client (Inl (OtherException (lit ''no such file'')))
       (\<lambda>k. Inl (APIError (lit ''rate limit'')))"
  have a: "completion_text (chat_completions_create ?cl (length (requests fresh_world)) (lit ''p'') True)
     = Inl (APIError (lit ''rate limit''))"
    by (simp add: scripted_client_def completion_text_def)
  have b: "transcriptions_create ?cl (lit ''a.mp3'') = Inl (OtherException (lit ''no such file''))"
    by (simp add: scripted_client_def)
  have c: "get_llm_response ?cl (lit ''p'') True fresh_world
     = (lit ''{}'',
        \<lparr>stdout = [], stderr = lit ''OpenAI API Error during summarization: rate limit\<newline>'',
         requests = [(lit ''p'', True)], stop_ticker_flag = False, thread_log = []\<rparr>)"
    by (simp add: get_llm_response_def Let_def scripted_client_def completion_text_def
        stderr_write_def fresh_world_def lit_def)
  show ?thesis
    using adapters_log_and_return_default [where cl = ?cl and w = fresh_world and prompt = "lit ''p''"
        and is_json = True and e = "APIError (lit ''rate limit'')" and filename = "lit ''a.mp3''"]
      adapters_log_and_return_default [where cl = ?cl and w = fresh_world and prompt = "lit ''p''"
        and is_json = True and e = "OtherException (lit ''no such file'')"
        and filename = "lit ''a.mp3''"] a b c
    by (simp add: fresh_world_def lit_def)
qed

text \<open>
  C9. Whatever the body of the \<open>try\<close> block of \<open>record_audio\<close> does (it runs to its end,
  it raises \<open>ffmpeg.Error\<close>, the handler of that error raises in turn, or it raises any
  other exception), the controlling thread does the same four things to the ticker, in
  this order and nothing else: it clears the flag, starts the thread, sets the flag and
  joins the thread; the flag is set when \<open>record_audio\<close> is left, and the last thing
  written is the closing line that follows the join. The ticker, on its side, leaves its
  loop at the first pass that reads the flag as set.
\<close>

theorem record_audio_stops_and_joins_ticker:
  "thread_log (snd (record_audio ffmpeg_run platform output_filename w)) =
     thread_log w @ [SetStopFlag False, ThreadStart, SetStopFlag True, ThreadJoin]
   \<and> stop_ticker_flag (snd (record_audio ffmpeg_run platform output_filename w)) = True
   \<and> suffix (lit ''\<newline>Recording process finished.\<newline>'')
        (stdout (snd (record_audio ffmpeg_run platform output_filename w)))
   \<and> snd (display_ticker (readings @ (True, elapsed) # later)) = True"
  using record_audio_fields [of ffmpeg_run platform output_filename w]
  by (simp add: display_ticker_stops)

theorem record_audio_stops_and_joins_ticker_witness:
  "record_audio (\<lambda>device format file. FfmpegError (Inl (OtherException (lit ''invalid start byte''))))
     (lit ''linux'') (lit ''a.mp3'') fresh_world
   = (Inl (OtherException (lit ''invalid start byte'')),
      \<lparr>stdout = lit ''Starting recording... Press '' @ 39 # lit ''Stop Recording'' @ 39
                  # lit '' in the GUI to finish.\<newline>\<newline>Recording process finished.\<newline>'',
       stderr = [], requests = [], stop_ticker_flag = True,
       thread_log = [SetStopFlag False, ThreadStart, SetStopFlag True, ThreadJoin]\<rparr>)
   \<and> thread_log (snd (record_audio (\<lambda>device format file. OtherError (lit ''no device''))
        (lit ''win32'') (lit ''a.mp3'') fresh_world))
       = [SetStopFlag False, ThreadStart, SetStopFlag True, ThreadJoin]
   \<and> display_ticker [(False, 0), (False, 61), (True, 62), (False, 63)]
       = (13 # lit ''Recording: 00:00'' @ 13 # lit ''Recording: 01:01'', True)"
proof -
  have a: "record_audio (\<lambda>device format file. FfmpegError (Inl (OtherException (lit ''invalid start byte''))))
     (lit ''linux'') (lit ''a.mp3'') fresh_world
   = (Inl (OtherException (lit ''invalid start byte'')),
      \<lparr>stdout = lit ''Starting recording... Press '' @ 39 # lit ''Stop Recording'' @ 39
                  # lit '' in the GUI to finish.\<newline>\<newline>Recording process finished.\<newline>'',
       stderr = [], requests = [], stop_ticker_flag = True,
       thread_log = [SetStopFlag False, ThreadStart, SetStopFlag True, ThreadJoin]\<rparr>)"
    by (simp add: record_audio_def Let_def stop_ticker_def print_def fresh_world_def lit_def)
  have b: "display_ticker [(False, 0), (False, 61), (True, 62), (False, 63)]
       = (13 # lit ''Recording: 00:00'' @ 13 # lit ''Recording: 01:01'', True)"
    by (simp add: two_digits_def str_nat_digit lit_def)
  show ?thesis
    using record_audio_stops_and_joins_ticker [where ffmpeg_run = "\<lambda>device format file. OtherError (lit ''no device'')"
        and platform = "lit ''win32''" and output_filename = "lit ''a.mp3''" and w = fresh_world
        and readings = "[(False, 0), (False, 61)]" and elapsed = 62 and later = "[(False, 63)]"] a b
    by (simp add: fresh_world_def)
qed

text \<open>
  C10. When the response to a chunk's map call consists of whitespace only,
  \<open>get_llm_response\<close> returns the empty string, the loop goes on to the remaining chunks
  with \<open>chunk_summaries\<close> unchanged (only the progress line and the request are recorded),
  and the chunk counts among the kept summaries as a failed one does: not at all.
\<close>

theorem whitespace_only_response_is_skipped:
  assumes "chat_completions_create cl (length (requests w)) (map_prompt chunk) False
             = Inr (Some s # others)"
    and "\<forall>c \<in> set s. py_isspace c"
  shows "fst (get_llm_response cl (map_prompt chunk) False
            (print (lit ''  - Processing chunk '' @ str_nat (i + 1) @ lit ''/'' @ str_nat n @ lit ''...'') w))
          = []
    \<and> map_loop cl n i (chunk # rest) chunk_summaries w =
        map_loop cl n (i + 1) rest chunk_summaries
          ((print (lit ''  - Processing chunk '' @ str_nat (i + 1) @ lit ''/'' @ str_nat n @ lit ''...'') w)
             \<lparr>requests := requests w @ [(map_prompt chunk, False)]\<rparr>)
    \<and> succeeded_summaries cl (length (requests w)) (chunk # rest)
        = succeeded_summaries cl (length (requests w) + 1) rest"
proof -
  have st: "strip s = []" using assms(2) by (rule strip_whitespace)
  have ct: "completion_text
      (chat_completions_create cl (length (requests w)) (map_prompt chunk) False) = Inr []"
    by (simp add: assms(1) completion_text_def st)
  show ?thesis
    by (simp add: ct get_llm_response_def Let_def print_fields)
qed

theorem whitespace_only_response_is_skipped_witness:
  "chat_completions_create (scripted_client (Inr []) (\<lambda>k. Inr [Some (lit '' \<newline> '')]))
       (length (requests fresh_world)) (map_prompt (lit ''hi'')) False
     = Inr (Some (lit '' \<newline> '') # [])
   \<and> list_all py_isspace (lit '' \<newline> '')
   \<and> fst (map_loop (scripted_client (Inr []) (\<lambda>k. Inr [Some (lit '' \<newline> '')])) 1 0 [lit ''hi''] []
        fresh_world) = []
   \<and> requests (snd (map_loop (scripted_client (Inr []) (\<lambda>k. Inr [Some (lit '' \<newline> '')])) 1 0
        [lit ''hi''] [] fresh_world)) = [(map_prompt (lit ''hi''), False)]
   \<and> stderr (snd (map_loop (scripted_client (Inr []) (\<lambda>k. Inr [Some (lit '' \<newline> '')])) 1 0
        [lit ''hi''] [] fresh_world)) = []"
proof -
  let ?cl = "scripted_client (Inr []) (\<lambda>k. Inr [Some (lit '' \<newline> '')])"
  have a: "chat_completions_create ?cl (length (requests fresh_world)) (map_prompt (lit ''hi'')) False
     = Inr (Some (lit '' \<newline> '') # [])"
    by (simp add: scripted_client_def)
  have b: "\<forall>c \<in> set (lit '' \<newline> ''). py_isspace c"
    by (simp add: lit_def py_isspace_def)
  show ?thesis
    using whitespace_only_response_is_skipped [OF a b, of 0 1 "[]" "[]"] a b
    by (simp add: list_all_iff print_fields fresh_world_def print_def)
qed

end
